theory Spec2Isabelle
  imports Complex_Main "HOL-Library.Sublist" "HOL-Library.Log_Nat"
begin

section \<open>Values exchanged with the explorer and the wallet\<close>

text \<open>
  The wallet talks to a blockbook explorer over HTTP and to a key store. Every call that
  can throw in the JavaScript (a failed \<^verbatim>\<open>fetch\<close>, a property read on
  \<^verbatim>\<open>undefined\<close>, a key store that refuses) returns a sum in the model, with
  \<open>Inl\<close> for the exception.
\<close>

datatype js_error = TypeError | FetchError | WalletError

text \<open>
  A parsed JSON value, as \<^verbatim>\<open>Response.json()\<close> yields it. The rational of a
  \<open>JNum\<close> is the value of the number that was read, a double. An object lists its
  members; where a name is listed twice, the first entry is the member.
\<close>

datatype json =
    JNull
  | JBool bool
  | JNum rat
  | JStr string
  | JArr "json list"
  | JObj "(string \<times> json) list"

text \<open>
  The requests sent to the explorer, one constructor per URL pattern of
  \<^verbatim>\<open>network.js\<close> (all are relative to \<^verbatim>\<open>strUrl\<close>); the last argument of the
  two transaction-history requests is the \<^verbatim>\<open>to=\<close> parameter.
\<close>

datatype request =
    ApiReq
  | UtxoReq string
  | TxSpecificReq string
  | SendTxReq string
  | XpubTxsReq string int
  | AddressTxsReq string int

text \<open>
  The events handed to \<^verbatim>\<open>eventEmitter.emit\<close>. \<open>TransactionSent\<close> carries the
  boolean and the list of further arguments (\<open>None\<close> is \<^verbatim>\<open>undefined\<close>).
\<close>

datatype event =
    NetworkToggle bool
  | SyncStatus string
  | UtxoEvent json
  | TransactionSent bool "json option list"

text \<open>
  A JavaScript number: a finite value, \<^verbatim>\<open>NaN\<close>, or an infinity (\<open>Infinity True\<close> is
  the positive one).
\<close>

datatype jsnum = Num rat | NaN | Infinity bool

text \<open>
  The master key of \<^verbatim>\<open>wallet.js\<close>, as far as the code reads it: three flags and
  two asynchronous methods that may throw. \<open>getAddress mk None\<close> is the call
  \<^verbatim>\<open>getAddress()\<close>, \<open>getAddress mk (Some p)\<close> the call with a derivation path.
\<close>

record master_key =
  isHD :: bool
  isHardwareWallet :: bool
  isViewOnly :: bool
  getxpub :: "string \<Rightarrow> js_error + string"
  getAddress :: "string option \<Rightarrow> js_error + string"

record reward =
  r_id :: string
  r_time :: int
  blockHeight :: int
  amount :: jsnum

section \<open>JavaScript numbers\<close>

text \<open>
  Every number of the code is an IEEE 754 double. \<open>double_of x\<close> is the double nearest
  to the rational \<open>x\<close>, ties going to the even significand: \<open>ilog2\<close> is the binary
  exponent \<open>\<lfloor>log\<^sub>2 x\<rfloor>\<close> of a positive \<open>x\<close>, the spacing of the doubles around \<open>x\<close> is
  \<open>2\<^bsup>q\<^esup>\<close> with \<open>q\<close> the exponent less 52 and at least \<open>-1074\<close> (the subnormal
  range), and a result of \<open>2\<^bsup>1024\<^esup>\<close> or more is an infinity. It is what reading a
  number of a JSON text does, and what every arithmetic operation does to its exact
  result. The two zeros are one \<open>Num 0\<close>: no quotient of the code has a zero that could
  be negative as its divisor, and no result is tested for its sign. Block heights,
  confirmation counts, time stamps and output indices are integers far below \<open>2\<^bsup>53\<^esup>\<close>,
  where the arithmetic of doubles is exact; they have the types \<open>int\<close> and \<open>nat\<close>.
\<close>

definition pow2 :: "int \<Rightarrow> rat" where
  "pow2 k = (if 0 \<le> k then 2 ^ nat k else 1 / 2 ^ nat (- k))"

definition ilog2 :: "rat \<Rightarrow> int" where
  "ilog2 x = (if 1 \<le> x then bitlen \<lfloor>x\<rfloor> - 1 else - bitlen (\<lceil>1 / x\<rceil> - 1))"

definition round_half_even :: "rat \<Rightarrow> int" where
  "round_half_even y =
     (let n = \<lfloor>y\<rfloor>; d = y - of_int n
      in if d < 1 / 2 then n else if 1 / 2 < d then n + 1 else if even n then n else n + 1)"

definition double_of :: "rat \<Rightarrow> jsnum" where
  "double_of x =
     (if x = 0 then Num 0
      else
        let a = \<bar>x\<bar>;
            q = max (ilog2 a - 52) (- 1074);
            r = of_int (round_half_even (a / pow2 q)) * pow2 q
        in if pow2 1024 \<le> r then Infinity (0 < x) else Num (if x < 0 then - r else r))"

text \<open>An integer constant or parameter as a number.\<close>

definition number :: "int \<Rightarrow> jsnum" where
  "number n = double_of (of_int n)"

text \<open>
  The operators \<^verbatim>\<open>+\<close>, unary and binary \<^verbatim>\<open>-\<close>, \<^verbatim>\<open>*\<close> and \<^verbatim>\<open>/\<close> on numbers, and
  \<^verbatim>\<open>Math.round\<close> (the nearest integer, a half going up) and \<^verbatim>\<open>Math.max\<close> of two
  numbers.
\<close>

fun js_add :: "jsnum \<Rightarrow> jsnum \<Rightarrow> jsnum" where
  "js_add (Num x) (Num y) = double_of (x + y)"
| "js_add (Infinity s) (Infinity t) = (if s = t then Infinity s else NaN)"
| "js_add (Infinity s) (Num y) = Infinity s"
| "js_add (Num x) (Infinity t) = Infinity t"
| "js_add NaN b = NaN"
| "js_add a NaN = NaN"

fun js_negate :: "jsnum \<Rightarrow> jsnum" where
  "js_negate (Num x) = Num (- x)"
| "js_negate (Infinity s) = Infinity (\<not> s)"
| "js_negate NaN = NaN"

definition js_sub :: "jsnum \<Rightarrow> jsnum \<Rightarrow> jsnum" where
  "js_sub a b = js_add a (js_negate b)"

fun js_times :: "jsnum \<Rightarrow> jsnum \<Rightarrow> jsnum" where
  "js_times (Num x) (Num y) = double_of (x * y)"
| "js_times (Infinity s) (Infinity t) = Infinity (s = t)"
| "js_times (Infinity s) (Num y) = (if y = 0 then NaN else Infinity (s = (0 < y)))"
| "js_times (Num x) (Infinity t) = (if x = 0 then NaN else Infinity (t = (0 < x)))"
| "js_times NaN b = NaN"
| "js_times a NaN = NaN"

fun js_divide :: "jsnum \<Rightarrow> jsnum \<Rightarrow> jsnum" where
  "js_divide (Num x) (Num y) =
     (if y = 0 then (if x = 0 then NaN else Infinity (0 < x)) else double_of (x / y))"
| "js_divide (Infinity s) (Infinity t) = NaN"
| "js_divide (Infinity s) (Num y) = Infinity (s = (0 \<le> y))"
| "js_divide (Num x) (Infinity t) = Num 0"
| "js_divide NaN b = NaN"
| "js_divide a NaN = NaN"

fun math_round :: "jsnum \<Rightarrow> jsnum" where
  "math_round (Num x) = Num (of_int \<lfloor>x + 1 / 2\<rfloor>)"
| "math_round (Infinity s) = Infinity s"
| "math_round NaN = NaN"

fun js_max :: "jsnum \<Rightarrow> jsnum \<Rightarrow> jsnum" where
  "js_max (Num x) (Num y) = Num (max x y)"
| "js_max NaN b = NaN"
| "js_max a NaN = NaN"
| "js_max (Infinity s) b = (if s then Infinity True else b)"
| "js_max a (Infinity t) = (if t then Infinity True else a)"

text \<open>
  The quotient \<^verbatim>\<open>x / COIN\<close> of an integer (\<open>None\<close> when it is \<^verbatim>\<open>NaN\<close>) by the
  constant \<^verbatim>\<open>COIN\<close>.
\<close>

definition js_div :: "int option \<Rightarrow> int \<Rightarrow> jsnum" where
  "js_div a c = js_divide (case a of None \<Rightarrow> NaN | Some x \<Rightarrow> number x) (number c)"

section \<open>The Network and ExplorerNetwork classes\<close>

text \<open>
  The fields of an \<^verbatim>\<open>ExplorerNetwork\<close> object: those of the base class
  (\<^verbatim>\<open>_enabled\<close>, \<^verbatim>\<open>masterKey\<close>, \<^verbatim>\<open>eventEmitter\<close>, \<^verbatim>\<open>lastWallet\<close>), its own
  (\<^verbatim>\<open>strUrl\<close>, \<^verbatim>\<open>blocks\<close>, \<^verbatim>\<open>arrRewards\<close>, \<^verbatim>\<open>isSyncing\<close>), and two logs of
  what the object did to the world outside: the alerts raised through
  \<^verbatim>\<open>createAlert\<close> (type and message) and the requests sent with \<^verbatim>\<open>fetch\<close>.
  The event emitter is the log of emitted events, oldest first.
\<close>

record network =
  p_enabled :: bool
  masterKey :: "master_key option"
  eventEmitter :: "event list"
  lastWallet :: jsnum
  strUrl :: string
  blocks :: int
  arrRewards :: "reward list"
  isSyncing :: bool
  alerts :: "(string \<times> string) list"
  requests :: "request list"

definition ExplorerNetwork :: "string \<Rightarrow> master_key option \<Rightarrow> network" where
  "ExplorerNetwork url mk =
     \<lparr>p_enabled = True, masterKey = mk, eventEmitter = [], lastWallet = Num 0,
      strUrl = url, blocks = 0, arrRewards = [], isSyncing = False,
      alerts = [], requests = []\<rparr>"

definition emit :: "event \<Rightarrow> network \<Rightarrow> network" where
  "emit e s = s\<lparr>eventEmitter := eventEmitter s @ [e]\<rparr>"

definition createAlert :: "string \<Rightarrow> string \<Rightarrow> network \<Rightarrow> network" where
  "createAlert ty msg s = s\<lparr>alerts := alerts s @ [(ty, msg)]\<rparr>"

definition fetch :: "request \<Rightarrow> network \<Rightarrow> network" where
  "fetch r s = s\<lparr>requests := requests s @ [r]\<rparr>"

text \<open>The setter \<^verbatim>\<open>set enabled(value)\<close> and the getter.\<close>

definition set_enabled :: "bool \<Rightarrow> network \<Rightarrow> network" where
  "set_enabled v s =
     (if v \<noteq> p_enabled s then (emit (NetworkToggle v) s)\<lparr>p_enabled := v\<rparr> else s)"

definition enabled :: "network \<Rightarrow> bool" where
  "enabled s = p_enabled s"

definition enable :: "network \<Rightarrow> network" where
  "enable s = set_enabled True s"

definition disable :: "network \<Rightarrow> network" where
  "disable s = set_enabled False s"

definition toggle :: "network \<Rightarrow> network" where
  "toggle s = set_enabled (\<not> enabled s) s"

definition getFee :: "int \<Rightarrow> int" where
  "getFee bytes = bytes * 50"

definition sync_failed_msg :: string where
  "sync_failed_msg =
     ''<b>Failed to synchronize!</b> Please try again later.'' @
     ''<br>You can attempt re-connect via the Settings.''"

text \<open>\<^verbatim>\<open>ExplorerNetwork.error()\<close>.\<close>

definition error :: "network \<Rightarrow> network" where
  "error s =
     (if enabled s then createAlert ''warning'' sync_failed_msg (disable s) else s)"

definition cachedBlockCount :: "network \<Rightarrow> int" where
  "cachedBlockCount s = blocks s"

text \<open>\<^verbatim>\<open>str.split('/')\<close> and \<^verbatim>\<open>arr.join('/')\<close>.\<close>

fun split_on :: "char \<Rightarrow> string \<Rightarrow> string list" where
  "split_on c [] = [[]]"
| "split_on c (x # xs) =
     (if x = c then [] # split_on c xs
      else (case split_on c xs of [] \<Rightarrow> [[x]] | w # ws \<Rightarrow> (x # w) # ws))"

fun join_with :: "char \<Rightarrow> string list \<Rightarrow> string" where
  "join_with c [] = []"
| "join_with c [w] = w"
| "join_with c (w # ws) = w @ c # join_with c ws"

text \<open>
  The account-level prefix of the derivation path:
  \<^verbatim>\<open>getDerivationPath(hw).split('/').slice(0, 4).join('/')\<close>.
  \<^verbatim>\<open>getDerivationPath\<close> is a function of \<^verbatim>\<open>wallet.js\<close> and is a parameter here.
\<close>

definition account_path :: "(bool \<Rightarrow> string) \<Rightarrow> bool \<Rightarrow> string" where
  "account_path getDerivationPath hw =
     join_with CHR ''/'' (take 4 (split_on CHR ''/'' (getDerivationPath hw)))"

text \<open>
  \<^verbatim>\<open>ExplorerNetwork.getUTXOs()\<close>. \<open>resp\<close> is what the explorer answers to the UTXO
  request. The \<^verbatim>\<open>finally\<close> block clears \<^verbatim>\<open>isSyncing\<close> on both paths.
\<close>

definition getUTXOs :: "(bool \<Rightarrow> string) \<Rightarrow> js_error + json \<Rightarrow> network \<Rightarrow> network" where
  "getUTXOs getDerivationPath resp s =
     (case masterKey s of
        None \<Rightarrow> s
      | Some mk \<Rightarrow>
          if isSyncing s then s
          else
            let s1 = s\<lparr>isSyncing := True\<rparr>;
                pk = (if isHD mk
                      then getxpub mk (account_path getDerivationPath (isHardwareWallet mk))
                      else getAddress mk None)
            in (case pk of
                  Inl e \<Rightarrow> (error s1)\<lparr>isSyncing := False\<rparr>
                | Inr publicKey \<Rightarrow>
                    let s2 = fetch (UtxoReq publicKey) s1
                    in (case resp of
                          Inl e \<Rightarrow> (error s2)\<lparr>isSyncing := False\<rparr>
                        | Inr data \<Rightarrow> (emit (UtxoEvent data) s2)\<lparr>isSyncing := False\<rparr>)))"

text \<open>
  The answer to \<^verbatim>\<open>/api/v2/api\<close>: an object whose \<^verbatim>\<open>backend\<close> member, when
  present, holds the height \<^verbatim>\<open>blocks\<close>.
\<close>

record backend_info =
  b_blocks :: int

record api_info =
  backend :: "backend_info option"

text \<open>
  \<^verbatim>\<open>ExplorerNetwork.getBlockCount()\<close>. A failed request or a missing
  \<^verbatim>\<open>backend\<close> member throws inside the \<^verbatim>\<open>try\<close>: the handler calls
  \<^verbatim>\<open>error()\<close> and throws again. \<^verbatim>\<open>getUTXOs()\<close> is started and not awaited; the
  model runs it to its end.
\<close>

definition getBlockCount ::
  "(bool \<Rightarrow> string) \<Rightarrow> js_error + api_info \<Rightarrow> js_error + json \<Rightarrow> network
     \<Rightarrow> (js_error + unit) \<times> network" where
  "getBlockCount getDerivationPath resp utxo_resp s =
     (let s0 = fetch ApiReq s
      in case resp of
           Inl e \<Rightarrow> (Inl e, error s0)
         | Inr info \<Rightarrow>
             (case backend info of
                None \<Rightarrow> (Inl TypeError, error s0)
              | Some b \<Rightarrow>
                  if b_blocks b > blocks s0
                  then (Inr (),
                        getUTXOs getDerivationPath utxo_resp
                          (emit (SyncStatus ''start'') (s0\<lparr>blocks := b_blocks b\<rparr>)))
                  else (Inr (), s0)))"

text \<open>\<^verbatim>\<open>Network.setMasterKey\<close> and its override in \<^verbatim>\<open>ExplorerNetwork\<close>.\<close>

definition Network_setMasterKey :: "master_key option \<Rightarrow> network \<Rightarrow> network" where
  "Network_setMasterKey k s = s\<lparr>masterKey := k\<rparr>"

definition setMasterKey :: "master_key option \<Rightarrow> network \<Rightarrow> network" where
  "setMasterKey k s = (s\<lparr>masterKey := k\<rparr>)\<lparr>arrRewards := []\<rparr>"

section \<open>Submitting a transaction\<close>

text \<open>
  JavaScript's view of a parsed JSON value. \<open>truthy\<close> is the test an \<^verbatim>\<open>if\<close> or
  \<^verbatim>\<open>&&\<close> makes. \<open>member name v\<close> is the read \<^verbatim>\<open>v.name\<close> of a member that no
  prototype defines (\<^verbatim>\<open>result\<close>, \<^verbatim>\<open>error\<close>): it throws on \<^verbatim>\<open>null\<close>, is
  \<^verbatim>\<open>undefined\<close> (\<open>None\<close>) on a primitive, an array or an object without the member.
  \<open>js_length v\<close> is \<^verbatim>\<open>v.length\<close> of a value that is not \<^verbatim>\<open>null\<close>: strings and
  arrays have one, an object has it only as a member. A character stands for one UTF-16
  code unit.
\<close>

fun truthy :: "json \<Rightarrow> bool" where
  "truthy JNull = False"
| "truthy (JBool b) = b"
| "truthy (JNum x) = (x \<noteq> 0)"
| "truthy (JStr s) = (s \<noteq> [])"
| "truthy (JArr xs) = True"
| "truthy (JObj kvs) = True"

fun member :: "string \<Rightarrow> json \<Rightarrow> js_error + json option" where
  "member name JNull = Inl TypeError"
| "member name (JObj kvs) = Inr (map_of kvs name)"
| "member name v = Inr None"

fun js_length :: "json \<Rightarrow> json option" where
  "js_length (JStr s) = Some (JNum (of_nat (length s)))"
| "js_length (JArr xs) = Some (JNum (of_nat (length xs)))"
| "js_length (JObj kvs) = map_of kvs ''length''"
| "js_length v = None"

text \<open>
  Whether the conversion of a value to a string completes, as in
  \<^verbatim>\<open>'Transaction sent! ' + data.result\<close>. A parsed JSON value holds no function, so
  an object converts (by \<^verbatim>\<open>Object.prototype.toString\<close>) exactly when it has no member
  \<^verbatim>\<open>toString\<close> of its own, a member \<^verbatim>\<open>valueOf\<close> being skipped or returning the
  object itself; an array converts by \<^verbatim>\<open>join\<close>, which converts every element that is
  not \<^verbatim>\<open>null\<close>; a primitive value and \<^verbatim>\<open>undefined\<close> always convert. Otherwise the
  conversion throws a \<^verbatim>\<open>TypeError\<close>.
\<close>

fun converts :: "json \<Rightarrow> bool" where
  "converts (JArr xs) = (\<forall>x \<in> set xs. converts x)"
| "converts (JObj kvs) = (map_of kvs ''toString'' = None)"
| "converts v = True"

definition result_converts :: "json option \<Rightarrow> bool" where
  "result_converts res = (case res of None \<Rightarrow> True | Some r \<Rightarrow> converts r)"

text \<open>The test \<^verbatim>\<open>data.result && data.result.length === 64\<close> on the value read.\<close>

definition result_ok :: "json option \<Rightarrow> bool" where
  "result_ok res =
     (case res of
        None \<Rightarrow> False
      | Some r \<Rightarrow> truthy r \<and> js_length r = Some (JNum 64))"

text \<open>
  \<^verbatim>\<open>ExplorerNetwork.sendTransaction(hex)\<close>. \<open>resp\<close> is the parsed answer of the
  explorer, or the exception of \<^verbatim>\<open>fetch\<close> or \<^verbatim>\<open>json()\<close>. Each branch first
  builds the text of its \<^verbatim>\<open>console.log\<close> from \<^verbatim>\<open>data.result\<close>, inside the
  \<^verbatim>\<open>try\<close>; when that conversion throws, the \<^verbatim>\<open>catch\<close> block runs and nothing is
  emitted. The result is \<open>Some True\<close>, \<open>Some False\<close>, or \<open>None\<close> when the
  \<^verbatim>\<open>catch\<close> block ends the call without a \<^verbatim>\<open>return\<close>.
\<close>

definition sendTransaction ::
  "string \<Rightarrow> js_error + json \<Rightarrow> network \<Rightarrow> bool option \<times> network" where
  "sendTransaction hex resp s =
     (let s0 = fetch (SendTxReq hex) s
      in case resp of
           Inl e \<Rightarrow> (None, error s0)
         | Inr data \<Rightarrow>
             (case member ''result'' data of
                Inl e \<Rightarrow> (None, error s0)
              | Inr res \<Rightarrow>
                  if result_ok res
                  then (if result_converts res
                        then (Some True, emit (TransactionSent True []) s0)
                        else (None, error s0))
                  else (if result_converts res
                        then (case member ''error'' data of
                                Inl e \<Rightarrow> (None, error s0)
                              | Inr err \<Rightarrow>
                                  (Some False, emit (TransactionSent False [err]) s0))
                        else (None, error s0))))"

text \<open>
  The reading of the test as "the response has a \<^verbatim>\<open>result\<close> member that is a string
  of length 64".
\<close>

fun is_string64 :: "json option \<Rightarrow> bool" where
  "is_string64 (Some (JStr r)) = (length r = 64)"
| "is_string64 res = False"

fun is_txid_string :: "json \<Rightarrow> bool" where
  "is_txid_string (JObj kvs) = is_string64 (map_of kvs ''result'')"
| "is_txid_string data = False"

section \<open>Staking rewards\<close>

text \<open>
  Strings are lists of \<open>char\<close>, one \<open>char\<close> for each UTF-16 code unit; a \<open>char\<close>
  holds the code units below 256, and those are the strings of the model.

  \<^verbatim>\<open>parseInt(str)\<close> without a radix: leading white space is skipped (of the code units
  below 256 these are tab, line feed, vertical tab, form feed, carriage return, space
  and the no-break space U+00A0), a sign is read, a \<^verbatim>\<open>0x\<close> prefix selects base 16,
  and the longest prefix of digits is the value, as the double nearest to it; with no
  digit the result is \<^verbatim>\<open>NaN\<close>. (Beyond 20 significant decimal digits the language
  lets an implementation read the further digits as 0; the model reads them all.)
\<close>

definition is_space :: "char \<Rightarrow> bool" where
  "is_space c =
     (c \<in> set [CHR '' '', CHR 0x09, CHR 0x0A, CHR 0x0B, CHR 0x0C, CHR 0x0D, CHR 0xA0])"

definition digit_of :: "nat \<Rightarrow> char \<Rightarrow> nat option" where
  "digit_of radix c =
     (let k = of_char c :: nat;
          d = (if 48 \<le> k \<and> k \<le> 57 then Some (k - 48)
               else if 97 \<le> k \<and> k \<le> 122 then Some (k - 87)
               else if 65 \<le> k \<and> k \<le> 90 then Some (k - 55)
               else None)
      in case d of None \<Rightarrow> None | Some v \<Rightarrow> if v < radix then Some v else None)"

fun digits_value :: "nat \<Rightarrow> nat \<Rightarrow> string \<Rightarrow> nat" where
  "digits_value radix acc [] = acc"
| "digits_value radix acc (c # cs) =
     (case digit_of radix c of
        None \<Rightarrow> acc
      | Some v \<Rightarrow> digits_value radix (acc * radix + v) cs)"

definition parseInt :: "string \<Rightarrow> jsnum" where
  "parseInt str =
     (let s1 = dropWhile is_space str;
          neg = (take 1 s1 = ''-'');
          s2 = (if take 1 s1 = ''-'' \<or> take 1 s1 = ''+'' then drop 1 s1 else s1);
          hex = (take 2 s2 = ''0x'' \<or> take 2 s2 = ''0X'');
          radix = (if hex then 16 else 10);
          s3 = (if hex then drop 2 s2 else s2)
      in case s3 of
           [] \<Rightarrow> NaN
         | c # cs \<Rightarrow>
             (case digit_of radix c of
                None \<Rightarrow> NaN
              | Some v \<Rightarrow>
                  number ((if neg then - 1 else 1) * int (digits_value radix 0 s3))))"

text \<open>
  The transactions of an \<^verbatim>\<open>xpub\<close> or \<^verbatim>\<open>address\<close> answer. An input or output may
  lack its \<^verbatim>\<open>addresses\<close> member (\<open>None\<close>); its \<^verbatim>\<open>value\<close> is a string. The answer
  itself may lack \<^verbatim>\<open>tokens\<close> and \<^verbatim>\<open>transactions\<close>.
\<close>

record tx_io =
  addresses :: "string list option"
  io_value :: string

record tx =
  txid :: string
  blockTime :: int
  t_blockHeight :: int
  vin :: "tx_io list"
  vout :: "tx_io list"

record token =
  tk_name :: string
  tk_path :: string

record cData =
  tokens :: "token list option"
  transactions :: "tx list option"
  itemsOnPage :: "int option"

text \<open>
  \<^verbatim>\<open>mapPaths\<close> is a \<^verbatim>\<open>Map\<close> from address to derivation path. \<open>known m a\<close> is the
  test \<^verbatim>\<open>filter((v) => v)\<close> on \<^verbatim>\<open>mapPaths.get(a)\<close>: the address is mapped to a
  non-empty path.
\<close>

type_synonym mapPaths = "string \<rightharpoonup> string"

definition known :: "mapPaths \<Rightarrow> string \<Rightarrow> bool" where
  "known m a = (case m a of None \<Rightarrow> False | Some p \<Rightarrow> p \<noteq> [])"

definition set_tokens :: "token list \<Rightarrow> mapPaths \<Rightarrow> mapPaths" where
  "set_tokens ts m = foldl (\<lambda>m t. m(tk_name t \<mapsto> tk_path t)) m ts"

text \<open>
  \<^verbatim>\<open>txSum(v)\<close>: the \<^verbatim>\<open>reduce\<close> from 0 over inputs or outputs. A summand is
  \<^verbatim>\<open>parseInt(s.value)\<close> when the entry has exactly two addresses and one of them is
  known, and 0 otherwise. Reading \<^verbatim>\<open>s.addresses.map\<close> throws when the member is
  missing.
\<close>

fun txSum_from :: "mapPaths \<Rightarrow> jsnum \<Rightarrow> tx_io list \<Rightarrow> js_error + jsnum" where
  "txSum_from m t [] = Inr t"
| "txSum_from m t (s # v) =
     (case addresses s of
        None \<Rightarrow> Inl TypeError
      | Some as \<Rightarrow>
          txSum_from m
            (js_add t (if length (filter (known m) as) \<noteq> 0 \<and> length as = 2
                       then parseInt (io_value s) else Num 0))
            v)"

definition txSum :: "mapPaths \<Rightarrow> tx_io list \<Rightarrow> js_error + jsnum" where
  "txSum m v = txSum_from m (Num 0) v"

text \<open>
  The three stages of the pipeline over \<^verbatim>\<open>cData.transactions\<close>. Each stage runs over
  the whole array before the next starts, and an exception in any callback ends the
  call.
\<close>

definition is_coinstake :: "tx \<Rightarrow> js_error + bool" where
  "is_coinstake t =
     (case vout t of
        [] \<Rightarrow> Inl TypeError
      | o1 # os \<Rightarrow>
          (case addresses o1 of
             None \<Rightarrow> Inl TypeError
           | Some as \<Rightarrow> Inr (case as of [] \<Rightarrow> False | a # as' \<Rightarrow> a = ''CoinStake TX'')))"

definition reward_of :: "int \<Rightarrow> mapPaths \<Rightarrow> tx \<Rightarrow> js_error + reward" where
  "reward_of COIN m t =
     (case txSum m (vout t) of
        Inl e \<Rightarrow> Inl e
      | Inr so \<Rightarrow>
          (case txSum m (vin t) of
             Inl e \<Rightarrow> Inl e
           | Inr si \<Rightarrow>
               Inr \<lparr>r_id = txid t, r_time = blockTime t, blockHeight = t_blockHeight t,
                    amount = js_divide (js_sub so si) (number COIN)\<rparr>))"

fun filterE :: "('a \<Rightarrow> js_error + bool) \<Rightarrow> 'a list \<Rightarrow> js_error + 'a list" where
  "filterE p [] = Inr []"
| "filterE p (x # xs) =
     (case p x of
        Inl e \<Rightarrow> Inl e
      | Inr b \<Rightarrow>
          (case filterE p xs of
             Inl e \<Rightarrow> Inl e
           | Inr ys \<Rightarrow> Inr (if b then x # ys else ys)))"

fun mapE :: "('a \<Rightarrow> js_error + 'b) \<Rightarrow> 'a list \<Rightarrow> js_error + 'b list" where
  "mapE f [] = Inr []"
| "mapE f (x # xs) =
     (case f x of
        Inl e \<Rightarrow> Inl e
      | Inr y \<Rightarrow> (case mapE f xs of Inl e \<Rightarrow> Inl e | Inr ys \<Rightarrow> Inr (y # ys)))"

definition new_rewards :: "int \<Rightarrow> mapPaths \<Rightarrow> tx list \<Rightarrow> js_error + reward list" where
  "new_rewards COIN m txs =
     (case filterE is_coinstake txs of
        Inl e \<Rightarrow> Inl e
      | Inr stakes \<Rightarrow>
          (case mapE (reward_of COIN m) stakes of
             Inl e \<Rightarrow> Inl e
           | Inr rs \<Rightarrow> Inr (filter (\<lambda>r. amount r \<noteq> Num 0) rs)))"

text \<open>
  \<^verbatim>\<open>nHeight\<close> and the \<^verbatim>\<open>to=\<close> parameter
  \<^verbatim>\<open>nHeight ? nHeight - 1 : 0\<close> of the request.
\<close>

definition nHeight :: "reward list \<Rightarrow> int" where
  "nHeight rs = (if length rs \<noteq> 0 then blockHeight (last rs) else 0)"

definition to_height :: "reward list \<Rightarrow> int" where
  "to_height rs = (if nHeight rs \<noteq> 0 then nHeight rs - 1 else 0)"

text \<open>
  \<^verbatim>\<open>ExplorerNetwork.getStakingRewards()\<close>. \<open>resp\<close> is the parsed answer of the
  explorer: \<open>Inr None\<close> is \<^verbatim>\<open>null\<close>, and any other answer is read through its
  \<^verbatim>\<open>tokens\<close> and \<^verbatim>\<open>transactions\<close> members. \<^verbatim>\<open>COIN\<close> (of
  \<^verbatim>\<open>chain_params.js\<close>) and \<^verbatim>\<open>getDerivationPath\<close> are parameters. The result is
  \<open>Inr None\<close> when the call returns nothing and \<open>Inr (Some rs)\<close> when it returns the
  list; no exception is caught, so \<open>Inl\<close> leaves the object as it was when the
  exception was thrown.
\<close>

definition getStakingRewards ::
  "int \<Rightarrow> (bool \<Rightarrow> string) \<Rightarrow> js_error + cData option \<Rightarrow> network
     \<Rightarrow> (js_error + reward list option) \<times> network" where
  "getStakingRewards COIN getDerivationPath resp s =
     (case masterKey s of
        None \<Rightarrow> (Inr None, s)
      | Some mk \<Rightarrow>
          if \<not> enabled s then (Inr None, s)
          else
            let key = (if isHD mk
                       then getxpub mk (account_path getDerivationPath (isHardwareWallet mk))
                       else getAddress mk None)
            in case key of
                 Inl e \<Rightarrow> (Inl e, s)
               | Inr k \<Rightarrow>
                   let s1 = fetch ((if isHD mk then XpubTxsReq else AddressTxsReq) k
                                     (to_height (arrRewards s))) s
                   in case resp of
                        Inl e \<Rightarrow> (Inl e, s1)
                      | Inr None \<Rightarrow>
                          if isHD mk then (Inl TypeError, s1)
                          else (Inr (Some (arrRewards s1)), s1)
                      | Inr (Some d) \<Rightarrow>
                          let m = (if isHD mk
                                   then (case tokens d of
                                           None \<Rightarrow> Map.empty
                                         | Some ts \<Rightarrow> set_tokens ts Map.empty)
                                   else [k \<mapsto> '':)''])
                          in case transactions d of
                               None \<Rightarrow> (Inr (Some (arrRewards s1)), s1)
                             | Some txs \<Rightarrow>
                                 (case new_rewards COIN m txs of
                                    Inl e \<Rightarrow> (Inl e, s1)
                                  | Inr rs \<Rightarrow>
                                      (Inr (Some (arrRewards s1 @ rs)),
                                       s1\<lparr>arrRewards := arrRewards s1 @ rs\<rparr>)))"

text \<open>
  The top-level function \<^verbatim>\<open>getStakingRewards\<close> that the same file still holds (twice,
  with the same text, between the markers of an unfinished merge). It works on module
  variables instead of the fields of the object, asks \<^verbatim>\<open>cExplorer.url\<close>, drives the
  "load more" button and the rewards list of the page, and returns nothing.
\<close>

record globals =
  networkEnabled :: bool
  g_masterKey :: "master_key option"
  g_arrRewards :: "reward list"
  domGuiStakingLoadMoreIcon_opacity :: rat
  domGuiStakingLoadMore_display :: string
  rewardsGUI_updates :: nat
  g_requests :: "request list"

definition stopAnim :: "globals \<Rightarrow> globals" where
  "stopAnim g = g\<lparr>domGuiStakingLoadMoreIcon_opacity := 1\<rparr>"

definition updateStakingRewardsGUI_callback :: "globals \<Rightarrow> globals" where
  "updateStakingRewardsGUI_callback g = g\<lparr>rewardsGUI_updates := Suc (rewardsGUI_updates g)\<rparr>"

definition getStakingRewards_toplevel ::
  "int \<Rightarrow> (bool \<Rightarrow> string) \<Rightarrow> js_error + cData option \<Rightarrow> globals
     \<Rightarrow> (js_error + unit) \<times> globals" where
  "getStakingRewards_toplevel COIN getDerivationPath resp g =
     (if \<not> networkEnabled g then (Inr (), g)
      else case g_masterKey g of
        None \<Rightarrow> (Inr (), g)
      | Some mk \<Rightarrow>
          let g0 = g\<lparr>domGuiStakingLoadMoreIcon_opacity := 1 / 2\<rparr>;
              key = (if isHD mk
                     then getxpub mk (account_path getDerivationPath (isHardwareWallet mk))
                     else getAddress mk None)
          in case key of
               Inl e \<Rightarrow> (Inl e, g0)
             | Inr k \<Rightarrow>
                 let g1 = g0\<lparr>g_requests := g_requests g0 @
                            [(if isHD mk then XpubTxsReq else AddressTxsReq) k
                               (to_height (g_arrRewards g0))]\<rparr>
                 in case resp of
                      Inl e \<Rightarrow> (Inl e, g1)
                    | Inr None \<Rightarrow>
                        if isHD mk then (Inl TypeError, g1)
                        else (Inr (), stopAnim (g1\<lparr>domGuiStakingLoadMore_display := ''none''\<rparr>))
                    | Inr (Some d) \<Rightarrow>
                        let m = (if isHD mk
                                 then (case tokens d of
                                         None \<Rightarrow> Map.empty
                                       | Some ts \<Rightarrow> set_tokens ts Map.empty)
                                 else [k \<mapsto> '':)''])
                        in case transactions d of
                             None \<Rightarrow>
                               (Inr (), stopAnim (g1\<lparr>domGuiStakingLoadMore_display := ''none''\<rparr>))
                           | Some txs \<Rightarrow>
                               (case new_rewards COIN m txs of
                                  Inl e \<Rightarrow> (Inl e, g1)
                                | Inr rs \<Rightarrow>
                                    let g2 = g1\<lparr>g_arrRewards := g_arrRewards g1 @ rs\<rparr>;
                                        g3 = (if Some (int (length txs)) \<noteq> itemsOnPage d
                                              then g2\<lparr>domGuiStakingLoadMore_display := ''none''\<rparr>
                                              else g2)
                                    in (Inr (), updateStakingRewardsGUI_callback (stopAnim g3))))"

text \<open>
  The update as the specification words it: select the transactions whose first output
  address is \<^verbatim>\<open>CoinStake TX\<close>, build the record \<^verbatim>\<open>{id, time, blockHeight, amount}\<close>
  of each from the sums over its outputs and inputs, and discard the records whose
  amount is 0.
\<close>

definition first_output_address :: "tx \<Rightarrow> string option" where
  "first_output_address t =
     (case vout t of
        [] \<Rightarrow> None
      | o1 # os \<Rightarrow>
          (case addresses o1 of
             None \<Rightarrow> None
           | Some as \<Rightarrow> (case as of [] \<Rightarrow> None | a # as' \<Rightarrow> Some a)))"

definition summand :: "mapPaths \<Rightarrow> tx_io \<Rightarrow> jsnum" where
  "summand m s =
     (case addresses s of
        None \<Rightarrow> Num 0
      | Some as \<Rightarrow>
          if list_ex (known m) as \<and> length as = 2 then parseInt (io_value s) else Num 0)"

definition spec_txSum :: "mapPaths \<Rightarrow> tx_io list \<Rightarrow> jsnum" where
  "spec_txSum m v = foldl (\<lambda>t s. js_add t (summand m s)) (Num 0) v"

definition spec_reward :: "int \<Rightarrow> mapPaths \<Rightarrow> tx \<Rightarrow> reward" where
  "spec_reward COIN m t =
     \<lparr>r_id = txid t, r_time = blockTime t, blockHeight = t_blockHeight t,
      amount = js_divide (js_sub (spec_txSum m (vout t)) (spec_txSum m (vin t)))
                 (number COIN)\<rparr>"

definition spec_new_rewards :: "int \<Rightarrow> mapPaths \<Rightarrow> tx list \<Rightarrow> reward list" where
  "spec_new_rewards COIN m txs =
     filter (\<lambda>r. amount r \<noteq> Num 0)
       (map (spec_reward COIN m)
          (filter (\<lambda>t. first_output_address t = Some ''CoinStake TX'') txs))"

text \<open>
  The key both functions ask the explorer about (the account \<^verbatim>\<open>xpub\<close> of an HD
  wallet, the address of a legacy one) and the \<^verbatim>\<open>mapPaths\<close> they build from it and
  from the answer.
\<close>

definition explorer_key :: "(bool \<Rightarrow> string) \<Rightarrow> master_key \<Rightarrow> js_error + string" where
  "explorer_key getDerivationPath mk =
     (if isHD mk then getxpub mk (account_path getDerivationPath (isHardwareWallet mk))
      else getAddress mk None)"

definition mapPaths_of :: "master_key \<Rightarrow> string \<Rightarrow> cData \<Rightarrow> mapPaths" where
  "mapPaths_of mk k d =
     (if isHD mk
      then (case tokens d of None \<Rightarrow> Map.empty | Some ts \<Rightarrow> set_tokens ts Map.empty)
      else [k \<mapsto> '':)''])"

section \<open>Full information on a UTXO\<close>

text \<open>
  The two states of \<^verbatim>\<open>Mempool\<close> that the code names, and the object built by
  \<^verbatim>\<open>new UTXO({...})\<close>: the class is declared in \<^verbatim>\<open>mempool.js\<close>, and the record has
  the members the specification lists for it. \<open>u_path\<close> is \<open>None\<close> when the
  explorer gave no path.
\<close>

datatype utxo_status = PENDING | CONFIRMED

record UTXO =
  u_id :: string
  u_path :: "string option"
  sats :: jsnum
  script :: string
  u_vout :: int
  height :: int
  status :: utxo_status
  isDelegate :: bool
  isReward :: bool

text \<open>
  The answer to \<^verbatim>\<open>/api/v2/tx-specific/<txid>\<close>, which may lack \<^verbatim>\<open>vout\<close> (an error
  object), and the entry of the UTXO list that the call is given. \<open>v_value\<close> is the
  amount as the text of the answer writes it; the number that \<^verbatim>\<open>json()\<close> reads from
  it is \<open>double_of (v_value o)\<close>.
\<close>

record scriptPubKey =
  spk_type :: string
  spk_hex :: string

record tx_vout =
  v_value :: rat
  v_n :: int
  v_scriptPubKey :: scriptPubKey

record tx_specific =
  ts_vout :: "tx_vout list option"
  confirmations :: int

record explorer_utxo =
  c_txid :: string
  c_vout :: nat
  c_path :: "string option"

text \<open>\<^verbatim>\<open>cChainParams.current\<close> and \<^verbatim>\<open>COIN\<close> of \<^verbatim>\<open>chain_params.js\<close> are parameters.\<close>

record chain_params =
  BIP44_TYPE :: nat
  BIP44_TYPE_LEDGER :: nat
  collateralInSats :: int
  TICKER :: string

text \<open>
  A natural number written in decimal, and the assignment \<^verbatim>\<open>arr[i] = v\<close>, which
  extends a short array with holes; a hole reads as the empty string in \<^verbatim>\<open>join\<close>
  and as \<^verbatim>\<open>NaN\<close> in \<^verbatim>\<open>parseInt\<close>, like the empty string that stands for it
  here.
\<close>

fun string_of_nat :: "nat \<Rightarrow> string" where
  "string_of_nat n =
     (if n < 10 then [''0123456789'' ! n]
      else string_of_nat (n div 10) @ [''0123456789'' ! (n mod 10)])"

definition js_set_index :: "string list \<Rightarrow> nat \<Rightarrow> string \<Rightarrow> string list" where
  "js_set_index xs i v =
     (if i < length xs then xs[i := v] else xs @ replicate (i - length xs) [] @ [v])"

definition js_index :: "string list \<Rightarrow> nat \<Rightarrow> string" where
  "js_index xs i = (if i < length xs then xs ! i else [])"

text \<open>
  The block \<^verbatim>\<open>if (cUTXO.path) {...}\<close>: the coin type of the path is replaced by the one
  of the wallet, \<^verbatim>\<open>lastWallet\<close> is raised to the address index, and the path is joined
  again. It reads \<^verbatim>\<open>this.masterKey.isHardwareWallet\<close>, which throws without a master
  key.
\<close>

definition rewrite_path ::
  "chain_params \<Rightarrow> string option \<Rightarrow> network \<Rightarrow> js_error + string option \<times> network" where
  "rewrite_path cp p s =
     (case p of
        None \<Rightarrow> Inr (None, s)
      | Some str \<Rightarrow>
          if str = [] then Inr (None, s)
          else (case masterKey s of
                  None \<Rightarrow> Inl TypeError
                | Some mk \<Rightarrow>
                    let path = js_set_index (split_on CHR ''/'' str) 2
                                 (string_of_nat (if isHardwareWallet mk
                                                 then BIP44_TYPE_LEDGER cp
                                                 else BIP44_TYPE cp) @ [CHR 0x27])
                    in Inr (Some (join_with CHR ''/'' path),
                            s\<lparr>lastWallet := js_max (parseInt (js_index path 5)) (lastWallet s)\<rparr>)))"

text \<open>
  \<^verbatim>\<open>ExplorerNetwork.getUTXOFullInfo(cUTXO)\<close>. \<open>resp\<close> is the parsed answer of the
  explorer. The selected output is read only after the path block has run; when it does
  not exist, reading its \<^verbatim>\<open>scriptPubKey\<close> throws. \<open>Inr None\<close> is the result
  \<^verbatim>\<open>null\<close>. The satoshis are \<^verbatim>\<open>Math.round(cVout.value * COIN)\<close>, a product of
  doubles.
\<close>

definition getUTXOFullInfo ::
  "int \<Rightarrow> chain_params \<Rightarrow> js_error + tx_specific \<Rightarrow> explorer_utxo \<Rightarrow> network
     \<Rightarrow> (js_error + UTXO option) \<times> network" where
  "getUTXOFullInfo COIN cp resp cUTXO s =
     (let s0 = fetch (TxSpecificReq (c_txid cUTXO)) s
      in case resp of
           Inl e \<Rightarrow> (Inl e, s0)
         | Inr cTx \<Rightarrow>
             (case ts_vout cTx of
                None \<Rightarrow> (Inl TypeError, s0)
              | Some outs \<Rightarrow>
                  (case rewrite_path cp (c_path cUTXO) s0 of
                     Inl e \<Rightarrow> (Inl e, s0)
                   | Inr (path, s1) \<Rightarrow>
                       if length outs \<le> c_vout cUTXO then (Inl TypeError, s1)
                       else
                         let cVout = outs ! c_vout cUTXO;
                             isColdStake = (spk_type (v_scriptPubKey cVout) = ''coldstake'');
                             isStandard = (spk_type (v_scriptPubKey cVout) = ''pubkeyhash'');
                             isReward = (spk_hex (v_scriptPubKey (outs ! 0)) = [])
                         in if \<not> isColdStake \<and> \<not> isStandard then (Inr None, s1)
                            else (Inr (Some
                                    \<lparr>u_id = c_txid cUTXO,
                                     u_path = path,
                                     sats = math_round (js_times (double_of (v_value cVout))
                                                          (number COIN)),
                                     script = spk_hex (v_scriptPubKey cVout),
                                     u_vout = v_n cVout,
                                     height = cachedBlockCount s1 - (confirmations cTx - 1),
                                     status = (if confirmations cTx < 1 then PENDING
                                               else CONFIRMED),
                                     isDelegate = isColdStake,
                                     isReward = isReward\<rparr>),
                                  s1))))"

section \<open>The masternode tab\<close>

text \<open>
  The masternode of \<^verbatim>\<open>masternode.js\<close>, with the members the specification lists. It
  is kept in local storage as one JSON text under the key \<^verbatim>\<open>masternode\<close>; the model
  keeps the parsed object, \<open>None\<close> when the key is absent.
\<close>

record masternode =
  walletPrivateKeyPath :: string
  mnPrivateKey :: string
  collateralTxId :: string
  outidx :: int
  addr :: string

text \<open>
  \<^verbatim>\<open>isMasternodeUTXO(cUTXO, masternode = null)\<close>; \<open>stored\<close> is the entry of local
  storage, read when no masternode is given.
\<close>

definition isMasternodeUTXO :: "UTXO \<Rightarrow> masternode option \<Rightarrow> masternode option \<Rightarrow> bool" where
  "isMasternodeUTXO cUTXO mn stored =
     (case (case mn of Some m \<Rightarrow> Some m | None \<Rightarrow> stored) of
        Some cMasternode \<Rightarrow>
          collateralTxId cMasternode = u_id cUTXO \<and> u_vout cUTXO = outidx cMasternode
      | None \<Rightarrow> False)"

text \<open>
  The texts written to \<^verbatim>\<open>domMnTextErrors\<close>, by their meaning: \<open>WalletFirst b\<close> asks to
  unlock (\<open>b\<close>) or import the collateral wallet, \<open>NeedMore x\<close> names the missing
  amount \<^verbatim>\<open>(collateralInSats - balance) / COIN\<close>.
\<close>

datatype mn_message =
    NoMessage
  | WalletFirst bool
  | LedgerUnsupported
  | WalletEmpty
  | NeedMore jsnum
  | MnOffline
  | MnStarted
  | MnNotStarted
  | MnRemoved
  | UnableToConnect

text \<open>What \<^verbatim>\<open>cMasternode.getFullData()\<close> reports.\<close>

record mn_data =
  md_status :: string
  md_version :: string
  md_network :: string
  md_lastseen :: int

text \<open>
  The part of the page and of local storage that the masternode functions write: the
  stored masternode, the \<^verbatim>\<open>style.display\<close> of five elements, the message, the options
  of the collateral selector (value and text), the access text, the data rendered into
  the text nodes of the dashboard (with the address of the masternode), and the alerts
  and pop-ups shown (type and text).
\<close>

record page =
  ls_masternode :: "masternode option"
  domMnTextErrors :: mn_message
  domAccessMasternode :: string
  domCreateMasternode :: string
  domMnDashboard :: string
  domControlMasternode :: string
  domMnTxId :: string
  domMnTxId_options :: "(string option \<times> string) list"
  domMnAccessMasternodeText :: string
  domMnDashboard_data :: "(string \<times> mn_data) option"
  page_alerts :: "(string \<times> string) list"

definition page_alert :: "string \<Rightarrow> string \<Rightarrow> page \<Rightarrow> page" where
  "page_alert ty msg g = g\<lparr>page_alerts := page_alerts g @ [(ty, msg)]\<rparr>"

definition masternodeLegacyAccessText :: string where
  "masternodeLegacyAccessText =
     ''Access the masternode linked to this address<br> Note: the masternode MUST have '' @
     ''been already created (however it can be online or offline)<br>  If you want to '' @
     ''create a new masternode access with a HD wallet''"

definition masternodeHDAccessText :: string where
  "masternodeHDAccessText =
     ''Access your masternodes if you have any! If you don'' @ [CHR 0x27] @
     ''t you can create one''"

text \<open>
  What the functions of \<^verbatim>\<open>global.js\<close> read from modules that are not part of the
  sources at hand: the master key, \<^verbatim>\<open>hasEncryptedWallet()\<close>, the confirmed UTXOs and
  the balance of the mempool, \<^verbatim>\<open>sanitizeHTML\<close>, and the answers of the masternode's
  \<^verbatim>\<open>getFullData()\<close> and \<^verbatim>\<open>start()\<close>.
\<close>

record wallet_env =
  e_masterKey :: "master_key option"
  hasEncryptedWallet :: bool
  getConfirmed :: "UTXO list"
  mempool_getBalance :: int
  sanitizeHTML :: "string \<Rightarrow> string"
  getFullData :: "js_error + mn_data option"
  mn_start :: bool

text \<open>
  \<^verbatim>\<open>refreshMasternodeData(cMasternode, fAlert)\<close>. Reading the status of missing data
  throws. Local storage is written with the masternode that was passed in.
\<close>

definition refreshMasternodeData ::
  "wallet_env \<Rightarrow> masternode \<Rightarrow> bool \<Rightarrow> page \<Rightarrow> (js_error + mn_data) \<times> page" where
  "refreshMasternodeData env cMasternode fAlert g =
     (case getFullData env of
        Inl e \<Rightarrow> (Inl e, g)
      | Inr None \<Rightarrow> (Inl TypeError, g)
      | Inr (Some d) \<Rightarrow>
          let g1 = (if md_status d \<noteq> ''MISSING''
                    then g\<lparr>domMnTextErrors := NoMessage,
                           domMnDashboard_data := Some (addr cMasternode, d)\<rparr>
                    else g)
          in if md_status d = ''MISSING'' then
               let g2 = g1\<lparr>domMnTextErrors := MnOffline\<rparr>
               in (case e_masterKey env of
                     None \<Rightarrow> (Inl TypeError, g2)
                   | Some mk \<Rightarrow>
                       if \<not> isViewOnly mk then
                         let g3 = page_alert ''warning''
                                    ''Your masternode is offline, we will try to start it'' g2
                         in if mn_start env
                            then (Inr d,
                                  (page_alert ''success''
                                     ''Masternode successfully started!, it will be soon online''
                                     (g3\<lparr>domMnTextErrors := MnStarted\<rparr>))
                                    \<lparr>ls_masternode := Some cMasternode\<rparr>)
                            else (Inr d,
                                  page_alert ''warning'' ''We could not start your masternode''
                                    (g3\<lparr>domMnTextErrors := MnNotStarted\<rparr>))
                       else (Inr d, g2))
             else if md_status d = ''ENABLED'' \<or> md_status d = ''PRE_ENABLED'' then
               (Inr d,
                (if fAlert
                 then page_alert ''success''
                        (''Your masternode status is <b> '' @ sanitizeHTML env (md_status d) @
                         '' </b>'') g1
                 else g1)\<lparr>ls_masternode := Some cMasternode\<rparr>)
             else if md_status d = ''REMOVED'' then
               (Inr d,
                (if fAlert
                 then page_alert ''warning'' ''Your masternode is in <b>REMOVED</b> state''
                 else (\<lambda>g. g)) (g1\<lparr>domMnTextErrors := MnRemoved\<rparr>))
             else
               (Inr d,
                (if fAlert then page_alert ''warning'' ''Unable to connect!'' else (\<lambda>g. g))
                  (g1\<lparr>domMnTextErrors := UnableToConnect\<rparr>)))"

text \<open>
  \<^verbatim>\<open>Array.find\<close> is \<open>find\<close>. \<^verbatim>\<open>Map.set\<close> keeps the place of a key that is already
  there. The loop over the collateral addresses appends one option per entry and stops
  when \<^verbatim>\<open>getAddress\<close> throws.
\<close>

fun map_set :: "'k \<Rightarrow> 'v \<Rightarrow> ('k \<times> 'v) list \<Rightarrow> ('k \<times> 'v) list" where
  "map_set k v [] = [(k, v)]"
| "map_set k v ((k', v') # kvs) =
     (if k = k' then (k, v) # kvs else (k', v') # map_set k v kvs)"

definition collateral_addresses :: "int \<Rightarrow> UTXO list \<Rightarrow> (string option \<times> UTXO) list" where
  "collateral_addresses collateral us =
     foldl (\<lambda>m cUTXO. if sats cUTXO \<noteq> number collateral then m
                   else map_set (u_path cUTXO) cUTXO m)
       [] us"

fun add_options ::
  "master_key \<Rightarrow> (string option \<times> UTXO) list \<Rightarrow> page \<Rightarrow> (js_error + unit) \<times> page" where
  "add_options mk [] g = (Inr (), g)"
| "add_options mk ((key, val) # kvs) g =
     (case getAddress mk key of
        Inl e \<Rightarrow> (Inl e, g)
      | Inr a \<Rightarrow> add_options mk kvs (g\<lparr>domMnTxId_options := domMnTxId_options g @ [(key, a)]\<rparr>))"

text \<open>
  The check of the stored masternode against the confirmed UTXOs (the block under the
  comment "If the collateral is missing (spent, or switched wallet) then remove the
  current MN").
\<close>

definition drop_orphan_masternode :: "UTXO list \<Rightarrow> page \<Rightarrow> page" where
  "drop_orphan_masternode confirmed g =
     (case ls_masternode g of
        None \<Rightarrow> g
      | Some cMasternode \<Rightarrow>
          if find (\<lambda>utxo. isMasternodeUTXO utxo (Some cMasternode) (ls_masternode g)) confirmed
               = None
          then g\<lparr>ls_masternode := None\<rparr>
          else g)"

text \<open>
  \<^verbatim>\<open>updateMasternodeTab()\<close>, with its two branches written apart: the one for a
  legacy wallet (\<^verbatim>\<open>if (!masterKey.isHD)\<close>) and the one for an HD wallet. Three guards
  return before the stored masternode is looked at: no master key, a hardware wallet,
  and no confirmed UTXO. \<open>strMasternodeJSON\<close> is the local variable of that name. In
  the legacy branch the refresh is awaited, so its exception ends the call; the branch
  for a collateral without a loaded masternode reads \<^verbatim>\<open>doms.domccessMasternode\<close>,
  which is not an element of \<^verbatim>\<open>doms\<close>, and throws. In the HD branch the refresh is
  started and not awaited; the model runs it to its end and drops its exception.
\<close>

definition legacy_masternode_tab ::
  "int \<Rightarrow> chain_params \<Rightarrow> wallet_env \<Rightarrow> masternode option \<Rightarrow> page
     \<Rightarrow> (js_error + unit) \<times> page" where
  "legacy_masternode_tab COIN cp env strMasternodeJSON g =
     (let g3 = g\<lparr>domMnAccessMasternodeText := masternodeLegacyAccessText,
                 domMnTxId := ''none''\<rparr>;
          cCollaUTXO = find (\<lambda>cUTXO. sats cUTXO = number (collateralInSats cp))
                         (getConfirmed env);
          balance = mempool_getBalance env
      in if cCollaUTXO \<noteq> None then
           (if strMasternodeJSON \<noteq> None then
              (case ls_masternode g3 of
                 None \<Rightarrow> (Inl TypeError, g3)
               | Some cMasternode \<Rightarrow>
                   (case refreshMasternodeData env cMasternode False g3 of
                      (Inl e, g4) \<Rightarrow> (Inl e, g4)
                    | (Inr d, g4) \<Rightarrow> (Inr (), g4\<lparr>domMnDashboard := ''''\<rparr>)))
            else (Inl TypeError, g3\<lparr>domMnTxId := ''none''\<rparr>))
         else if balance < collateralInSats cp then
           (Inr (), g3\<lparr>domMnTextErrors :=
                        NeedMore (js_div (Some (collateralInSats cp - balance)) COIN)\<rparr>)
         else
           (Inr (), g3\<lparr>domCreateMasternode := ''block'', domMnTxId := ''none'',
                       domMnTxId_options := []\<rparr>))"

definition hd_masternode_tab ::
  "chain_params \<Rightarrow> wallet_env \<Rightarrow> master_key \<Rightarrow> masternode option \<Rightarrow> page
     \<Rightarrow> (js_error + unit) \<times> page" where
  "hd_masternode_tab cp env mk strMasternodeJSON g =
     (let g3 = g\<lparr>domMnTxId := ''none'', domMnTxId_options := [],
                 domMnAccessMasternodeText := masternodeHDAccessText\<rparr>;
          mapCollateralAddresses =
            collateral_addresses (collateralInSats cp) (getConfirmed env);
          fHasCollateral = (length mapCollateralAddresses > 0)
      in case (if strMasternodeJSON = None \<and> fHasCollateral
               then add_options mk mapCollateralAddresses
                      (g3\<lparr>domMnTxId := ''block'', domAccessMasternode := ''block''\<rparr>)
               else (Inr (), g3)) of
           (Inl e, g4) \<Rightarrow> (Inl e, g4)
         | (Inr u, g4) \<Rightarrow>
             let g5 = (if \<not> fHasCollateral
                       then g4\<lparr>domCreateMasternode := ''block''\<rparr> else g4)
             in (case strMasternodeJSON of
                   Some cMasternode \<Rightarrow>
                     if fHasCollateral
                     then (Inr (),
                           (snd (refreshMasternodeData env cMasternode False g5))
                             \<lparr>domMnDashboard := ''''\<rparr>)
                     else (Inr (), g5)
                 | None \<Rightarrow> (Inr (), g5)))"

definition updateMasternodeTab ::
  "int \<Rightarrow> chain_params \<Rightarrow> wallet_env \<Rightarrow> page \<Rightarrow> (js_error + unit) \<times> page" where
  "updateMasternodeTab COIN cp env g =
     (let g0 = g\<lparr>domMnTextErrors := NoMessage, domAccessMasternode := ''none'',
                 domCreateMasternode := ''none'', domMnDashboard := ''none''\<rparr>
      in case e_masterKey env of
           None \<Rightarrow> (Inr (), g0\<lparr>domMnTextErrors := WalletFirst (hasEncryptedWallet env)\<rparr>)
         | Some mk \<Rightarrow>
             if isHardwareWallet mk
             then (Inr (), g0\<lparr>domMnTxId := ''none'', domMnTextErrors := LedgerUnsupported\<rparr>)
             else if length (getConfirmed env) = 0
             then (Inr (), g0\<lparr>domMnTextErrors := WalletEmpty\<rparr>)
             else
               let g1 = drop_orphan_masternode (getConfirmed env) g0;
                   strMasternodeJSON = ls_masternode g1;
                   g2 = g1\<lparr>domControlMasternode :=
                            (if strMasternodeJSON \<noteq> None then ''block'' else ''none'')\<rparr>
               in if \<not> isHD mk
                  then legacy_masternode_tab COIN cp env strMasternodeJSON g2
                  else hd_masternode_tab cp env mk strMasternodeJSON g2)"

section \<open>Creating a masternode\<close>

text \<open>
  The arguments of the two methods of \<^verbatim>\<open>Mempool\<close> that \<^verbatim>\<open>createMasternode\<close> calls,
  as the object literals of the calls have them, and the methods themselves: the class
  is declared in \<^verbatim>\<open>mempool.js\<close>, so they are parameters over any type \<open>'m\<close> of
  mempools.
\<close>

record utxo_ref =
  ref_id :: string
  ref_path :: "string option"
  ref_vout :: int

record new_utxo =
  n_id :: string
  n_path :: string
  n_sats :: int
  n_vout :: int
  n_script :: string
  n_status :: utxo_status

record 'm mempool_ops =
  autoRemoveUTXO :: "utxo_ref \<Rightarrow> 'm \<Rightarrow> 'm"
  addUTXO :: "new_utxo \<Rightarrow> 'm \<Rightarrow> 'm"

text \<open>
  The input of a transaction built by \<^verbatim>\<open>bitjs\<close>, the answer of \<^verbatim>\<open>chooseUTXOs\<close>, and
  what \<^verbatim>\<open>createMasternode\<close> gets from its collaborators: the value of the creation
  selector, the two fresh addresses with their paths, the coin control with the inputs
  it put into the transaction, the length of the serialised transaction, the script (in
  hex) of the output that \<^verbatim>\<open>addoutput\<close> makes for an address and an amount, the
  signed transaction of the software wallet and of the Ledger, the transaction id
  computed from a signed transaction (the byte-swapped double hash), whether
  \<^verbatim>\<open>sendTransaction\<close> returns a truthy value for it, and the generated masternode key.
\<close>

record tx_input =
  outpoint_hash :: string
  outpoint_index :: int
  in_path :: "string option"

record coin_control =
  cc_success :: bool
  cc_msg :: string
  cc_nValue :: int

record create_env =
  domMnCreateType :: string
  newAddress :: "string \<times> string"
  newChangeAddress :: "string \<times> string"
  chooseUTXOs :: "coin_control \<times> tx_input list"
  serialize_length :: int
  output_script :: "string \<Rightarrow> jsnum \<Rightarrow> string"
  sign :: string
  ledgerSerialisedTx :: string
  futureTxid_of :: "string \<Rightarrow> string"
  sendTransaction_ok :: "string \<Rightarrow> bool"
  generateMnPrivkey :: string

text \<open>
  The block that follows \<^verbatim>\<open>const result = await sendTransaction(...)\<close>, which both the
  software branch and the Ledger branch hold with the same text: when the result is
  truthy, every input is passed to \<^verbatim>\<open>autoRemoveUTXO\<close> and the change output (index 0)
  and the collateral output (index 1) are passed to \<^verbatim>\<open>addUTXO\<close> as pending.
\<close>

definition after_broadcast ::
  "'m mempool_ops \<Rightarrow> create_env \<Rightarrow> string \<Rightarrow> tx_input list \<Rightarrow> string \<times> string \<Rightarrow> int
     \<Rightarrow> string \<times> string \<Rightarrow> int \<Rightarrow> int \<Rightarrow> 'm \<Rightarrow> 'm" where
  "after_broadcast ops env hex inputs change nChange collateral nValue COIN mp =
     (if sendTransaction_ok env hex then
        let mp1 = foldl (\<lambda>m tx. autoRemoveUTXO ops
                           \<lparr>ref_id = outpoint_hash tx, ref_path = in_path tx,
                            ref_vout = outpoint_index tx\<rparr> m) mp inputs;
            futureTxid = futureTxid_of env hex;
            mp2 = addUTXO ops
                    \<lparr>n_id = futureTxid, n_path = snd change, n_sats = nChange, n_vout = 0,
                     n_script = output_script env (fst change) (js_div (Some nChange) COIN),
                     n_status = PENDING\<rparr> mp1
        in addUTXO ops
             \<lparr>n_id = futureTxid, n_path = snd collateral, n_sats = nValue, n_vout = 1,
              n_script = output_script env (fst collateral) (js_div (Some nValue) COIN),
              n_status = PENDING\<rparr> mp2
      else mp)"

text \<open>
  \<^verbatim>\<open>createMasternode()\<close> on the page and the mempool; \<open>key\<close> is the master key
  of \<^verbatim>\<open>wallet.js\<close>. Reading
  \<^verbatim>\<open>masterKey.isViewOnly\<close> throws without a master key. \<^verbatim>\<open>getFee\<close> is the function
  of \<^verbatim>\<open>network.js\<close>. The debug output is left out. The success alert and the removal
  of the stored masternode follow the broadcast whatever its result.
\<close>

definition createMasternode ::
  "'m mempool_ops \<Rightarrow> int \<Rightarrow> chain_params \<Rightarrow> master_key option \<Rightarrow> create_env \<Rightarrow> page \<Rightarrow> 'm
     \<Rightarrow> (js_error + unit) \<times> page \<times> 'm" where
  "createMasternode ops COIN cp key env g mp =
     (case key of
        None \<Rightarrow> (Inl TypeError, g, mp)
      | Some mk \<Rightarrow>
          if isViewOnly mk
          then (Inr (),
                page_alert ''warning'' (''Can'' @ [CHR 0x27] @
                  ''t create a masternode in view only mode'') g, mp)
          else
            let fGeneratePrivkey = (domMnCreateType env = ''VPS'');
                nValue = collateralInSats cp;
                cCoinControl = fst (chooseUTXOs env);
                inputs = snd (chooseUTXOs env)
            in if \<not> cc_success cCoinControl
               then (Inr (), page_alert ''alert'' (cc_msg cCoinControl) g, mp)
               else
                 let nFee = getFee (serialize_length env);
                     nChange = cc_nValue cCoinControl - (nFee + nValue)
                 in if \<not> nChange > 0
                    then (Inr (),
                          page_alert ''warning''
                            (''You don'' @ [CHR 0x27] @ ''t have enough '' @ TICKER cp @
                             '' to create a masternode'') g, mp)
                    else
                      let mp' = (if \<not> isHardwareWallet mk
                                 then after_broadcast ops env (sign env) inputs
                                        (newChangeAddress env) nChange (newAddress env) nValue
                                        COIN mp
                                 else after_broadcast ops env (ledgerSerialisedTx env) inputs
                                        (newChangeAddress env) nChange (newAddress env) nValue
                                        COIN mp);
                          g1 = (if isHardwareWallet mk
                                then page_alert ''confirmPopup'' ''CONFIRM_POPUP_TRANSACTION'' g
                                else g);
                          g2 = (if fGeneratePrivkey
                                then page_alert ''confirmPopup'' (generateMnPrivkey env) g1
                                else g1)
                      in (Inr (),
                          (page_alert ''success''
                             ''<b>Masternode Created!<b><br>Wait 15 confirmations to proceed further''
                             g2)\<lparr>ls_masternode := None\<rparr>,
                          mp'))"

text \<open>
  Whether the call reaches the broadcast, the transaction it then submits, and the
  change it then has.
\<close>

definition reaches_broadcast :: "chain_params \<Rightarrow> master_key option \<Rightarrow> create_env \<Rightarrow> bool" where
  "reaches_broadcast cp key env =
     (case key of
        None \<Rightarrow> False
      | Some mk \<Rightarrow>
          \<not> isViewOnly mk \<and> cc_success (fst (chooseUTXOs env)) \<and>
          0 < cc_nValue (fst (chooseUTXOs env)) -
                (getFee (serialize_length env) + collateralInSats cp))"

definition submitted_tx :: "master_key option \<Rightarrow> create_env \<Rightarrow> string" where
  "submitted_tx key env =
     (case key of
        None \<Rightarrow> []
      | Some mk \<Rightarrow> if isHardwareWallet mk then ledgerSerialisedTx env else sign env)"

definition change_of :: "chain_params \<Rightarrow> create_env \<Rightarrow> int" where
  "change_of cp env =
     cc_nValue (fst (chooseUTXOs env)) - (getFee (serialize_length env) + collateralInSats cp)"

section \<open>Sample values\<close>

text \<open>A legacy (non-HD) software wallet whose only address is \<open>DAddr\<close>.\<close>

definition wallet_key :: master_key where
  "wallet_key = \<lparr>isHD = False, isHardwareWallet = False, isViewOnly = False,
     getxpub = (\<lambda>p. Inl WalletError), getAddress = (\<lambda>p. Inr ''DAddr'')\<rparr>"

text \<open>
  A coin-stake transaction paying a cold-staking output of the wallet, the explorer's
  answer holding it, and a network that already stores one reward of a later block.
\<close>

definition stake_tx :: tx where
  "stake_tx =
     \<lparr>txid = ''ab12'', blockTime = 1670000000, t_blockHeight = 3599000,
      vin = [\<lparr>addresses = Some [''DAddr''], io_value = ''50000000000''\<rparr>],
      vout = [\<lparr>addresses = Some [''CoinStake TX''], io_value = ''0''\<rparr>,
              \<lparr>addresses = Some [''SStaker'', ''DAddr''], io_value = ''50400000000''\<rparr>]\<rparr>"

definition stake_answer :: cData where
  "stake_answer = \<lparr>tokens = None, transactions = Some [stake_tx], itemsOnPage = Some 500\<rparr>"

definition old_reward :: reward where
  "old_reward = \<lparr>r_id = ''cd34'', r_time = 1670060000, blockHeight = 3600000, amount = Num 4\<rparr>"

definition staking_net :: network where
  "staking_net = (ExplorerNetwork ''u'' (Some wallet_key))\<lparr>arrRewards := [old_reward]\<rparr>"

definition staking_globals :: globals where
  "staking_globals =
     \<lparr>networkEnabled = True, g_masterKey = Some wallet_key, g_arrRewards = [old_reward],
      domGuiStakingLoadMoreIcon_opacity = 1, domGuiStakingLoadMore_display = ''block'',
      rewardsGUI_updates = 0, g_requests = []\<rparr>"

text \<open>A network whose only stored reward has block height 0.\<close>

definition zero_reward :: reward where
  "zero_reward = \<lparr>r_id = ''ef56'', r_time = 1670000000, blockHeight = 0, amount = Num 4\<rparr>"

definition zero_height_net :: network where
  "zero_height_net = (ExplorerNetwork ''u'' (Some wallet_key))\<lparr>arrRewards := [zero_reward]\<rparr>"

text \<open>
  A cold-staking output of a coin-stake transaction with 12 confirmations, and the entry
  of the UTXO list that selects it.
\<close>

definition cold_tx :: tx_specific where
  "cold_tx =
     \<lparr>ts_vout = Some
        [\<lparr>v_value = 0, v_n = 0, v_scriptPubKey = \<lparr>spk_type = ''nonstandard'', spk_hex = ''''\<rparr>\<rparr>,
         \<lparr>v_value = 5045 / 10, v_n = 1,
          v_scriptPubKey = \<lparr>spk_type = ''coldstake'', spk_hex = ''76a97b63''\<rparr>\<rparr>],
      confirmations = 12\<rparr>"

definition cold_utxo :: explorer_utxo where
  "cold_utxo = \<lparr>c_txid = ''ab12'', c_vout = 1, c_path = Some (''m/44'' @ [CHR 0x27] @ ''/1/0/0/7'')\<rparr>"

definition pivx_params :: chain_params where
  "pivx_params =
     \<lparr>BIP44_TYPE = 119, BIP44_TYPE_LEDGER = 77, collateralInSats = 1000000000000,
      TICKER = ''PIV''\<rparr>"

text \<open>
  A stored masternode, a page that holds it, a confirmed UTXO that is its collateral,
  and three environments of a legacy wallet: one whose mempool has no confirmed UTXO,
  one that holds the collateral, and one that holds only another UTXO.
\<close>

definition sample_mn :: masternode where
  "sample_mn =
     \<lparr>walletPrivateKeyPath = ''legacy'', mnPrivateKey = ''93HaYBV'', collateralTxId = ''ab12'',
      outidx = 1, addr = ''10.0.0.1:51472''\<rparr>"

definition sample_page :: page where
  "sample_page =
     \<lparr>ls_masternode = Some sample_mn, domMnTextErrors = NoMessage,
      domAccessMasternode = ''none'', domCreateMasternode = ''none'', domMnDashboard = '''',
      domControlMasternode = ''block'', domMnTxId = ''none'', domMnTxId_options = [],
      domMnAccessMasternodeText = '''', domMnDashboard_data = None, page_alerts = []\<rparr>"

definition collateral_utxo :: UTXO where
  "collateral_utxo =
     \<lparr>u_id = ''ab12'', u_path = None, sats = Num 1000000000000, script = ''76a914'', u_vout = 1,
      height = 3599989, status = CONFIRMED, isDelegate = False, isReward = False\<rparr>"

definition other_utxo :: UTXO where
  "other_utxo =
     \<lparr>u_id = ''cd34'', u_path = None, sats = Num 500000000, script = ''76a914'', u_vout = 0,
      height = 3599000, status = CONFIRMED, isDelegate = False, isReward = False\<rparr>"

definition loading_env :: wallet_env where
  "loading_env =
     \<lparr>e_masterKey = Some wallet_key, hasEncryptedWallet = False, getConfirmed = [],
      mempool_getBalance = 0, sanitizeHTML = (\<lambda>s. s),
      getFullData = Inr (Some \<lparr>md_status = ''ENABLED'', md_version = ''70926'',
                               md_network = ''ipv4'', md_lastseen = 1670000000\<rparr>),
      mn_start = True\<rparr>"

definition collateral_env :: wallet_env where
  "collateral_env = loading_env\<lparr>getConfirmed := [other_utxo, collateral_utxo],
                                  mempool_getBalance := 1000500000000\<rparr>"

definition spent_env :: wallet_env where
  "spent_env = loading_env\<lparr>getConfirmed := [other_utxo], mempool_getBalance := 500000000\<rparr>"

text \<open>
  A mempool kept as a list of outpoints with their status, on which
  \<^verbatim>\<open>autoRemoveUTXO\<close> deletes the outpoint and \<^verbatim>\<open>addUTXO\<close> appends one; a creation
  that spends one UTXO of 10001 coins; and the same creation with a broadcast that
  fails.
\<close>

definition list_mempool :: "(string \<times> int \<times> utxo_status) list mempool_ops" where
  "list_mempool =
     \<lparr>autoRemoveUTXO = (\<lambda>r m. filter (\<lambda>u. \<not> (fst u = ref_id r \<and> fst (snd u) = ref_vout r)) m),
      addUTXO = (\<lambda>n m. m @ [(n_id n, n_vout n, n_status n)])\<rparr>"

definition outpoints :: "(string \<times> int \<times> utxo_status) list \<Rightarrow> (string \<times> int) set" where
  "outpoints m = (\<lambda>u. (fst u, fst (snd u))) ` set m"

definition sample_creation :: create_env where
  "sample_creation =
     \<lparr>domMnCreateType = ''VPS'',
      newAddress = (''DCollateral'', ''m/44/119/0/0/8''),
      newChangeAddress = (''DChange'', ''m/44/119/0/1/3''),
      chooseUTXOs = (\<lparr>cc_success = True, cc_msg = '''', cc_nValue = 1000100000000\<rparr>,
                     [\<lparr>outpoint_hash = ''cd34'', outpoint_index = 0, in_path = None\<rparr>]),
      serialize_length = 226,
      output_script = (\<lambda>a v. ''76a914'' @ a @ ''88ac''),
      sign = ''0100000001'',
      ledgerSerialisedTx = ''0100000001'',
      futureTxid_of = (\<lambda>hex. ''f00d''),
      sendTransaction_ok = (\<lambda>hex. True),
      generateMnPrivkey = ''93HaYBV''\<rparr>"

definition failed_creation :: create_env where
  "failed_creation = sample_creation\<lparr>sendTransaction_ok := (\<lambda>hex. False)\<rparr>"

text \<open>
  The coin-stake transaction under another id and height, an answer of the explorer
  that lists two of them by rising height, and a later answer that holds the first of
  them again.
\<close>

definition stake_tx_at :: "string \<Rightarrow> int \<Rightarrow> tx" where
  "stake_tx_at i h = stake_tx\<lparr>txid := i, t_blockHeight := h\<rparr>"

definition rising_answer :: cData where
  "rising_answer =
     \<lparr>tokens = None, transactions = Some [stake_tx_at ''aa01'' 100, stake_tx_at ''bb02'' 200],
      itemsOnPage = Some 500\<rparr>"

definition repeated_answer :: cData where
  "repeated_answer =
     \<lparr>tokens = None, transactions = Some [stake_tx_at ''aa01'' 100], itemsOnPage = Some 500\<rparr>"

text \<open>
  The network after a first call of \<^verbatim>\<open>getStakingRewards\<close> that was answered with the
  two transactions of rising height, and the key of a hardware wallet that is not
  connected: its \<^verbatim>\<open>getxpub\<close> throws.
\<close>

definition rising_net :: network where
  "rising_net =
     snd (getStakingRewards 100000000 (\<lambda>hw. ''m/44/119/0/0/0'') (Inr (Some rising_answer))
            (ExplorerNetwork ''u'' (Some wallet_key)))"

definition hardware_key :: master_key where
  "hardware_key = \<lparr>isHD = True, isHardwareWallet = True, isViewOnly = False,
     getxpub = (\<lambda>p. Inl WalletError), getAddress = (\<lambda>p. Inl WalletError)\<rparr>"

text \<open>
  An unconfirmed transaction with two standard outputs of 0.000000015 and 0.000000016
  coins, and the entries of the UTXO list that select them.
\<close>

definition dust_tx :: tx_specific where
  "dust_tx =
     \<lparr>ts_vout = Some
        [\<lparr>v_value = 15 / 1000000000, v_n = 0,
          v_scriptPubKey = \<lparr>spk_type = ''pubkeyhash'', spk_hex = ''76a914aa''\<rparr>\<rparr>,
         \<lparr>v_value = 16 / 1000000000, v_n = 1,
          v_scriptPubKey = \<lparr>spk_type = ''pubkeyhash'', spk_hex = ''76a914bb''\<rparr>\<rparr>],
      confirmations = 0\<rparr>"

definition dust_utxo :: "nat \<Rightarrow> explorer_utxo" where
  "dust_utxo i = \<lparr>c_txid = ''dd01'', c_vout = i, c_path = None\<rparr>"

text \<open>
  A response whose \<^verbatim>\<open>result\<close> has the length 64 and a member \<^verbatim>\<open>toString\<close> that is no
  function.
\<close>

definition unprintable_response :: json where
  "unprintable_response =
     JObj [(''result'', JObj [(''length'', JNum 64), (''toString'', JNum 1)])]"

section \<open>Properties\<close>

subsection \<open>Doubles\<close>

lemma pow2_nonneg_eq: "0 \<le> k \<Longrightarrow> pow2 k = of_int (2 ^ nat k)"
  by (simp add: pow2_def)

lemma pow2_nonpos_eq: "k \<le> 0 \<Longrightarrow> pow2 k = 1 / of_int (2 ^ nat (- k))"
  by (cases "k = 0") (simp_all add: pow2_def)

text \<open>\<open>ilog2\<close> is the binary exponent: \<open>2\<^bsup>ilog2 x\<^esup> \<le> x < 2\<^bsup>ilog2 x + 1\<^esup>\<close>.\<close>

lemma ilog2_bounds:
  assumes "0 < x"
  shows "pow2 (ilog2 x) \<le> x \<and> x < pow2 (ilog2 x + 1)"
proof (cases "1 \<le> x")
  case True
  define n where "n = \<lfloor>x\<rfloor>"
  have n1: "1 \<le> n" using True by (simp add: n_def)
  then have n0: "0 < n" by simp
  have b: "2 ^ nat (bitlen n - 1) \<le> n" "n < 2 ^ nat (bitlen n)"
    using bitlen_bounds [OF n0] by simp_all
  have "bitlen n \<noteq> 0" using n0 by (simp add: bitlen_eq_zero_iff)
  then have b1: "0 \<le> bitlen n - 1" "0 \<le> bitlen n"
    using bitlen_nonneg [of n] by linarith+
  have e: "ilog2 x = bitlen n - 1" using True by (simp add: ilog2_def n_def)
  have f1: "(of_int (2 ^ nat (bitlen n - 1)) :: rat) \<le> of_int n"
    using b(1) by (simp only: of_int_le_iff)
  have f2: "of_int n \<le> x" by (simp add: n_def)
  have lo: "pow2 (bitlen n - 1) \<le> x"
    unfolding pow2_nonneg_eq [OF b1(1)] by (rule order_trans [OF f1 f2])
  have "n + 1 \<le> 2 ^ nat (bitlen n)" using b(2) by simp
  then have f3: "(of_int (n + 1) :: rat) \<le> of_int (2 ^ nat (bitlen n))"
    by (simp only: of_int_le_iff)
  have f4: "x < of_int (n + 1)"
    using floor_correct [of x] by (simp add: n_def)
  have hi: "x < pow2 (bitlen n)"
    unfolding pow2_nonneg_eq [OF b1(2)] by (rule less_le_trans [OF f4 f3])
  show ?thesis using lo hi e by simp
next
  case False
  then have x1: "x < 1" by simp
  define y where "y = 1 / x"
  have y1: "1 < y" using assms x1 by (simp add: y_def)
  have y0: "0 < y" using y1 by simp
  have xy: "x = 1 / y" using assms by (simp add: y_def)
  define c where "c = \<lceil>y\<rceil>"
  have c2: "2 \<le> c" using y1 by (simp add: c_def)
  have cy: "of_int (c - 1) < y" "y \<le> of_int c"
    using ceiling_correct [of y] by (simp_all add: c_def)
  define k where "k = bitlen (c - 1)"
  have c0: "0 < c - 1" using c2 by simp
  have b: "2 ^ nat (k - 1) \<le> c - 1" "c - 1 < 2 ^ nat k"
    using bitlen_bounds [OF c0] by (simp_all add: k_def)
  have "k \<noteq> 0" using c0 by (simp add: k_def bitlen_eq_zero_iff)
  then have k1: "- k \<le> 0" "- k + 1 \<le> 0"
    using bitlen_nonneg [of "c - 1"] by (simp_all add: k_def)
  have e: "ilog2 x = - k" using False by (simp add: ilog2_def k_def c_def y_def)
  have "c \<le> 2 ^ nat k" using b(2) by simp
  then have g1: "(of_int c :: rat) \<le> of_int (2 ^ nat k)" by (simp only: of_int_le_iff)
  have yk: "y \<le> of_int (2 ^ nat k)" by (rule order_trans [OF cy(2) g1])
  have lo: "pow2 (- k) \<le> x"
  proof -
    have "1 / of_int (2 ^ nat k) \<le> 1 / y"
      by (rule frac_le) (use yk y0 in simp_all)
    then show ?thesis unfolding pow2_nonpos_eq [OF k1(1)] xy by simp
  qed
  have g2: "(of_int (2 ^ nat (k - 1)) :: rat) \<le> of_int (c - 1)"
    using b(1) by (simp only: of_int_le_iff)
  have ky: "of_int (2 ^ nat (k - 1)) < y" by (rule le_less_trans [OF g2 cy(1)])
  have hi: "x < pow2 (- k + 1)"
  proof -
    have p: "(0::rat) < of_int (2 ^ nat (k - 1))" by simp
    have "1 / y < 1 / of_int (2 ^ nat (k - 1))"
      by (rule frac_less2) (use ky p in simp_all)
    moreover have "nat (- (- k + 1)) = nat (k - 1)" by simp
    ultimately show ?thesis unfolding pow2_nonpos_eq [OF k1(2)] xy by simp
  qed
  show ?thesis using lo hi e by simp
qed

text \<open>Rounding to the nearest integer moves a number by a half at most.\<close>

lemma round_half_even_nearest: "\<bar>of_int (round_half_even y) - y\<bar> \<le> 1 / 2"
proof -
  have "of_int \<lfloor>y\<rfloor> \<le> y" "y < of_int \<lfloor>y\<rfloor> + 1"
    using floor_correct [of y] by simp_all
  then show ?thesis
    by (auto simp add: round_half_even_def Let_def abs_le_iff)
qed

lemma round_half_even_int: "round_half_even (of_int k) = k"
  by (simp add: round_half_even_def)

text \<open>
  A finite \<open>double_of x\<close> is a multiple of the spacing \<open>2\<^bsup>q\<^esup>\<close> and lies within half
  of it from \<open>x\<close>.
\<close>

lemma double_of_nearest:
  assumes "double_of x = Num r"
  shows "\<exists>m. r = of_int m * pow2 (max (ilog2 \<bar>x\<bar> - 52) (- 1074)) \<and>
             \<bar>r - x\<bar> \<le> pow2 (max (ilog2 \<bar>x\<bar> - 52) (- 1074)) / 2"
proof (cases "x = 0")
  case True
  then have "r = 0" using assms by (simp add: double_of_def)
  then show ?thesis using True by (auto simp add: pow2_def intro: exI [of _ 0])
next
  case False
  define q where "q = max (ilog2 \<bar>x\<bar> - 52) (- 1074)"
  define m where "m = round_half_even (\<bar>x\<bar> / pow2 q)"
  have p: "0 < pow2 q" by (simp add: pow2_def)
  have r: "r = (if x < 0 then - (of_int m * pow2 q) else of_int m * pow2 q)"
    using assms False
    by (simp add: double_of_def Let_def q_def m_def split: if_splits)
  have "\<bar>of_int m - \<bar>x\<bar> / pow2 q\<bar> \<le> 1 / 2"
    unfolding m_def by (rule round_half_even_nearest)
  then have "\<bar>of_int m - \<bar>x\<bar> / pow2 q\<bar> * pow2 q \<le> 1 / 2 * pow2 q"
    using p by (simp only: mult_le_cancel_right_pos)
  moreover have "\<bar>of_int m - \<bar>x\<bar> / pow2 q\<bar> * pow2 q = \<bar>of_int m * pow2 q - \<bar>x\<bar>\<bar>"
  proof -
    have "\<bar>of_int m - \<bar>x\<bar> / pow2 q\<bar> * pow2 q = \<bar>(of_int m - \<bar>x\<bar> / pow2 q) * pow2 q\<bar>"
      using p by (simp add: abs_mult)
    also have "(of_int m - \<bar>x\<bar> / pow2 q) * pow2 q = of_int m * pow2 q - \<bar>x\<bar>"
      using p by (simp add: left_diff_distrib)
    finally show ?thesis .
  qed
  ultimately have d: "\<bar>of_int m * pow2 q - \<bar>x\<bar>\<bar> \<le> pow2 q / 2"
    by simp
  show ?thesis
  proof (cases "x < 0")
    case True
    then have "r = of_int (- m) * pow2 q" using r by simp
    moreover have "\<bar>r - x\<bar> = \<bar>of_int m * pow2 q - \<bar>x\<bar>\<bar>"
      using True r abs_minus_cancel [of "of_int m * pow2 q + x"] by simp
    then have "\<bar>r - x\<bar> \<le> pow2 q / 2"
      using d by simp
    ultimately show ?thesis unfolding q_def by blast
  next
    case False
    then have "r = of_int m * pow2 q" using r by simp
    moreover have "\<bar>r - x\<bar> \<le> pow2 q / 2"
      using d False r by (simp add: abs_le_iff)
    ultimately show ?thesis unfolding q_def by blast
  qed
qed

text \<open>Evaluating \<open>double_of\<close> at a positive number, step by step.\<close>

lemma double_of_eval:
  assumes "0 < x" and "ilog2 x = e" and "max (e - 52) (- 1074) = q"
    and "round_half_even (x / pow2 q) = m" and "of_int m * pow2 q < pow2 1024"
  shows "double_of x = Num (of_int m * pow2 q)"
  using assms by (simp add: double_of_def Let_def)

lemma bitlen_le_53:
  assumes "0 < n" and "n < 2 ^ 53"
  shows "1 \<le> bitlen n \<and> bitlen n \<le> 53"
proof -
  have b: "2 ^ nat (bitlen n - 1) \<le> n" "n < 2 ^ nat (bitlen n)"
    using bitlen_bounds [OF assms(1)] by simp_all
  have "bitlen n \<noteq> 0"
    using assms(1) by (simp add: bitlen_eq_zero_iff)
  then have one: "1 \<le> bitlen n"
    using bitlen_nonneg [of n] by linarith
  have "(2::int) ^ nat (bitlen n - 1) < 2 ^ 53"
    using b(1) assms(2) by linarith
  then have "nat (bitlen n - 1) < 53"
    using power_less_imp_less_exp [of "2::int" "nat (bitlen n - 1)" 53] by simp
  then show ?thesis using one by linarith
qed

text \<open>The integers below \<open>2\<^bsup>53\<^esup>\<close> are doubles.\<close>

lemma double_of_nat_exact:
  assumes "0 < n" and "n < 2 ^ 53"
  shows "double_of (of_int n) = Num (of_int n)"
proof -
  define k where "k = nat (53 - bitlen n)"
  have b: "1 \<le> bitlen n" "bitlen n \<le> 53"
    using bitlen_le_53 [OF assms] by simp_all
  have x: "(1::rat) \<le> of_int n" using assms(1) by simp
  have e: "ilog2 (of_int n) = bitlen n - 1"
    using x by (simp add: ilog2_def)
  have q: "max (bitlen n - 1 - 52) (- 1074) = - int k"
    using b by (simp add: k_def)
  have p: "pow2 (- int k) = 1 / 2 ^ k"
    by (simp add: pow2_def)
  have m: "round_half_even (of_int n / pow2 (- int k)) = n * 2 ^ k"
  proof -
    have "of_int n / pow2 (- int k) = (of_int (n * 2 ^ k) :: rat)"
      by (simp add: p)
    then show ?thesis by (simp only: round_half_even_int)
  qed
  have r: "of_int (n * 2 ^ k) * pow2 (- int k) = (of_int n :: rat)"
    by (simp add: p)
  have "(of_int n :: rat) < of_int (2 ^ 53)"
    using assms(2) by (simp only: of_int_less_iff)
  then have "(of_int n :: rat) < 2 ^ 1024"
    by simp
  then have lt: "of_int (n * 2 ^ k) * pow2 (- int k) < pow2 1024"
    by (simp add: r pow2_def)
  have pos: "(0::rat) < of_int n" using assms(1) by simp
  show ?thesis
    using double_of_eval [OF pos e q m lt] by (simp only: r)
qed

lemma double_of_numeral [simp]:
  "numeral v < (2::int) ^ 53 \<Longrightarrow> double_of (numeral v) = Num (numeral v)"
  using double_of_nat_exact [of "numeral v"] by simp

lemma double_of_0 [simp]: "double_of 0 = Num 0"
  by (simp add: double_of_def)

lemma double_of_1 [simp]: "double_of 1 = Num 1"
  using double_of_nat_exact [of 1] by simp

lemma number_numeral [simp]:
  "numeral v < (2::int) ^ 53 \<Longrightarrow> number (numeral v) = Num (numeral v)"
  by (simp add: number_def)

lemma number_0 [simp]: "number 0 = Num 0"
  by (simp add: number_def)

lemma floor_numeral_div [simp]:
  "\<lfloor>numeral a / numeral b :: rat\<rfloor> = numeral a div numeral b"
  using floor_divide_of_int_eq [of "numeral a" "numeral b", where ?'a = rat] by simp

lemma ceiling_numeral_div [simp]:
  "\<lceil>numeral a / numeral b :: rat\<rceil> = - (- numeral a div numeral b)"
  unfolding ceiling_def
  using floor_divide_of_int_eq [of "- numeral a" "numeral b", where ?'a = rat] by simp

lemmas eval_double = ilog2_def compute_bitlen pow2_def round_half_even_def Let_def

text \<open>
  The amounts 0.000000015 and 0.000000016 as doubles, and their products with
  \<open>10\<^sup>8\<close>: the first product is the double just below 1.5.
\<close>

lemma double_of_15e_9:
  "double_of (15 / 1000000000) = Num (4533471823554859 / 302231454903657293676544)"
proof -
  have "double_of (15 / 1000000000) = Num (of_int 4533471823554859 * pow2 (- 78))"
    by (rule double_of_eval [where e = "- 26"]) (simp_all add: eval_double)
  then show ?thesis by (simp add: pow2_def)
qed

lemma double_of_15e_9_times:
  "double_of (4533471823554859 / 302231454903657293676544 * 100000000) =
     Num (6755399441055743 / 4503599627370496)"
proof -
  have "double_of (4533471823554859 / 302231454903657293676544 * 100000000) =
        Num (of_int 6755399441055743 * pow2 (- 52))"
    by (rule double_of_eval [where e = 0]) (simp_all add: eval_double)
  then show ?thesis by (simp add: pow2_def)
qed

lemma double_of_16e_9:
  "double_of (16 / 1000000000) = Num (4835703278458517 / 302231454903657293676544)"
proof -
  have "double_of (16 / 1000000000) = Num (of_int 4835703278458517 * pow2 (- 78))"
    by (rule double_of_eval [where e = "- 26"]) (simp_all add: eval_double)
  then show ?thesis by (simp add: pow2_def)
qed

lemma double_of_16e_9_times:
  "double_of (4835703278458517 / 302231454903657293676544 * 100000000) =
     Num (3602879701896397 / 2251799813685248)"
proof -
  have "double_of (4835703278458517 / 302231454903657293676544 * 100000000) =
        Num (of_int 7205759403792794 * pow2 (- 52))"
    by (rule double_of_eval [where e = 0]) (simp_all add: eval_double)
  then show ?thesis by (simp add: pow2_def)
qed

lemma double_of_tenth:
  "double_of (1 / 10) = Num (3602879701896397 / 36028797018963968)"
proof -
  have "double_of (1 / 10) = Num (of_int 7205759403792794 * pow2 (- 56))"
    by (rule double_of_eval [where e = "- 4"]) (simp_all add: eval_double)
  then show ?thesis by (simp add: pow2_def)
qed

lemma double_of_1009_half: "double_of (1009 / 2) = Num (1009 / 2)"
proof -
  have "double_of (1009 / 2) = Num (of_int 8875257859407872 * pow2 (- 44))"
    by (rule double_of_eval [where e = 8]) (simp_all add: eval_double)
  then show ?thesis by (simp add: pow2_def)
qed

subsection \<open>The methods of the network and the masternode functions\<close>

lemma set_enabled_fields [simp]:
  "masterKey (set_enabled v s) = masterKey s"
  "lastWallet (set_enabled v s) = lastWallet s"
  "strUrl (set_enabled v s) = strUrl s"
  "blocks (set_enabled v s) = blocks s"
  "arrRewards (set_enabled v s) = arrRewards s"
  "isSyncing (set_enabled v s) = isSyncing s"
  "alerts (set_enabled v s) = alerts s"
  "requests (set_enabled v s) = requests s"
  "p_enabled (set_enabled v s) = v"
  by (simp_all add: set_enabled_def emit_def)

lemma error_fields [simp]:
  "masterKey (error s) = masterKey s"
  "lastWallet (error s) = lastWallet s"
  "strUrl (error s) = strUrl s"
  "blocks (error s) = blocks s"
  "arrRewards (error s) = arrRewards s"
  "isSyncing (error s) = isSyncing s"
  "requests (error s) = requests s"
  "p_enabled (error s) = False"
  by (simp_all add: error_def createAlert_def disable_def enabled_def)

lemma getUTXOs_blocks [simp]: "blocks (getUTXOs g r s) = blocks s"
  by (simp add: getUTXOs_def fetch_def emit_def Let_def split: option.splits sum.splits)

text \<open>
  C9. The \<^verbatim>\<open>network-toggle\<close> event is emitted exactly when the enabled flag changes:
  assigning the current value leaves the object as it is, assigning the other value
  appends one event carrying the new value and flips the flag. \<^verbatim>\<open>error()\<close> on an
  enabled network disables it (one toggle event) and raises one warning; on a disabled
  network it does nothing, so a second call in a row changes nothing.
\<close>

theorem network_toggle_on_change:
  "set_enabled (enabled s) s = s \<and>
   set_enabled (\<not> enabled s) s =
     s\<lparr>p_enabled := \<not> enabled s,
       eventEmitter := eventEmitter s @ [NetworkToggle (\<not> enabled s)]\<rparr> \<and>
   (enabled s \<longrightarrow>
      error s = s\<lparr>p_enabled := False,
                  eventEmitter := eventEmitter s @ [NetworkToggle False],
                  alerts := alerts s @ [(''warning'', sync_failed_msg)]\<rparr>) \<and>
   (\<not> enabled s \<longrightarrow> error s = s) \<and>
   error (error s) = error s"
  by (simp add: set_enabled_def enabled_def error_def disable_def emit_def createAlert_def)

theorem network_toggle_on_change_witness:
  "enabled (ExplorerNetwork ''u'' None) \<and>
   eventEmitter (error (ExplorerNetwork ''u'' None)) = [NetworkToggle False] \<and>
   alerts (error (ExplorerNetwork ''u'' None)) = [(''warning'', sync_failed_msg)] \<and>
   \<not> enabled (error (ExplorerNetwork ''u'' None)) \<and>
   error (error (error (ExplorerNetwork ''u'' None))) = error (ExplorerNetwork ''u'' None)"
  using network_toggle_on_change [of "ExplorerNetwork ''u'' None"]
    network_toggle_on_change [of "error (ExplorerNetwork ''u'' None)"]
  by (simp add: ExplorerNetwork_def enabled_def)

text \<open>
  C10. \<^verbatim>\<open>ExplorerNetwork.setMasterKey(k)\<close> stores \<open>k\<close>, empties the reward list and
  touches no other field; the base-class method only stores the key.
\<close>

theorem setMasterKey_resets_rewards:
  "masterKey (setMasterKey k s) = k \<and>
   arrRewards (setMasterKey k s) = [] \<and>
   p_enabled (setMasterKey k s) = p_enabled s \<and>
   eventEmitter (setMasterKey k s) = eventEmitter s \<and>
   lastWallet (setMasterKey k s) = lastWallet s \<and>
   strUrl (setMasterKey k s) = strUrl s \<and>
   blocks (setMasterKey k s) = blocks s \<and>
   isSyncing (setMasterKey k s) = isSyncing s \<and>
   alerts (setMasterKey k s) = alerts s \<and>
   requests (setMasterKey k s) = requests s \<and>
   setMasterKey k s = Network_setMasterKey k (s\<lparr>arrRewards := []\<rparr>)"
  by (simp add: setMasterKey_def Network_setMasterKey_def)

lemma error_events: "prefix (eventEmitter s) (eventEmitter (error s))"
  by (simp add: error_def createAlert_def disable_def set_enabled_def emit_def)

lemma getUTXOs_events: "prefix (eventEmitter s) (eventEmitter (getUTXOs g u s))"
proof -
  have e: "\<And>s'. eventEmitter s' = eventEmitter s \<Longrightarrow>
             prefix (eventEmitter s) (eventEmitter (error s'))"
    using error_events by metis
  show ?thesis
    by (simp add: getUTXOs_def fetch_def emit_def Let_def e split: option.splits sum.splits)
qed

lemma getUTXOs_requests:
  assumes "masterKey s = Some mk" and "\<not> isSyncing s" and "explorer_key g mk = Inr k"
  shows "requests (getUTXOs g u s) = requests s @ [UtxoReq k]"
  using assms
  by (simp add: getUTXOs_def explorer_key_def fetch_def emit_def Let_def split: sum.splits)

lemma getUTXOs_idle: "masterKey s = None \<or> isSyncing s \<Longrightarrow> getUTXOs g u s = s"
  by (auto simp add: getUTXOs_def split: option.splits)

text \<open>
  C1. The cached block height never decreases. When the explorer reports a height \<open>h\<close>,
  \<^verbatim>\<open>getBlockCount\<close> stores it only when it is greater than the cached one, and then
  emits \<^verbatim>\<open>sync-status\<close> and calls \<^verbatim>\<open>getUTXOs\<close> (which sends the UTXO request
  when a master key is set, no scan is running and the key store answers); otherwise the
  cached height and the emitted events stay as they were.
\<close>

theorem getBlockCount_monotone:
  "cachedBlockCount s \<le> cachedBlockCount (snd (getBlockCount g resp u s)) \<and>
   (\<forall>h. resp = Inr \<lparr>backend = Some \<lparr>b_blocks = h\<rparr>\<rparr> \<longrightarrow>
      (cachedBlockCount s < h \<longrightarrow>
         getBlockCount g resp u s =
           (Inr (), getUTXOs g u
              ((fetch ApiReq s)\<lparr>blocks := h,
                 eventEmitter := eventEmitter s @ [SyncStatus ''start'']\<rparr>)) \<and>
         cachedBlockCount (snd (getBlockCount g resp u s)) = h \<and>
         prefix (eventEmitter s @ [SyncStatus ''start''])
           (eventEmitter (snd (getBlockCount g resp u s))) \<and>
         (\<forall>mk k. masterKey s = Some mk \<and> \<not> isSyncing s \<and> explorer_key g mk = Inr k \<longrightarrow>
            requests (snd (getBlockCount g resp u s)) = requests s @ [ApiReq, UtxoReq k])) \<and>
      (h \<le> cachedBlockCount s \<longrightarrow>
         fst (getBlockCount g resp u s) = Inr () \<and>
         cachedBlockCount (snd (getBlockCount g resp u s)) = cachedBlockCount s \<and>
         eventEmitter (snd (getBlockCount g resp u s)) = eventEmitter s \<and>
         snd (getBlockCount g resp u s) = fetch ApiReq s))"
proof -
  have m: "cachedBlockCount s \<le> cachedBlockCount (snd (getBlockCount g resp u s))"
    by (auto simp add: getBlockCount_def cachedBlockCount_def fetch_def emit_def Let_def
        split: sum.splits option.splits)
  have le: "\<And>h. resp = Inr \<lparr>backend = Some \<lparr>b_blocks = h\<rparr>\<rparr> \<Longrightarrow> h \<le> cachedBlockCount s \<Longrightarrow>
         fst (getBlockCount g resp u s) = Inr () \<and>
         cachedBlockCount (snd (getBlockCount g resp u s)) = cachedBlockCount s \<and>
         eventEmitter (snd (getBlockCount g resp u s)) = eventEmitter s \<and>
         snd (getBlockCount g resp u s) = fetch ApiReq s"
    by (simp add: getBlockCount_def cachedBlockCount_def fetch_def)
  have gt: "\<And>h. resp = Inr \<lparr>backend = Some \<lparr>b_blocks = h\<rparr>\<rparr> \<Longrightarrow> cachedBlockCount s < h \<Longrightarrow>
         getBlockCount g resp u s =
           (Inr (), getUTXOs g u
              ((fetch ApiReq s)\<lparr>blocks := h,
                 eventEmitter := eventEmitter s @ [SyncStatus ''start'']\<rparr>))"
    by (simp add: getBlockCount_def cachedBlockCount_def fetch_def emit_def)
  have ev: "\<And>h. prefix (eventEmitter s @ [SyncStatus ''start''])
          (eventEmitter (getUTXOs g u
              ((fetch ApiReq s)\<lparr>blocks := h,
                 eventEmitter := eventEmitter s @ [SyncStatus ''start'']\<rparr>)))"
    using getUTXOs_events
      [of "(fetch ApiReq s)\<lparr>blocks := h, eventEmitter := eventEmitter s @ [SyncStatus ''start'']\<rparr>"
        g u for h]
    by simp
  have rq: "\<And>h mk k. masterKey s = Some mk \<Longrightarrow> \<not> isSyncing s \<Longrightarrow> explorer_key g mk = Inr k \<Longrightarrow>
          requests (getUTXOs g u
              ((fetch ApiReq s)\<lparr>blocks := h,
                 eventEmitter := eventEmitter s @ [SyncStatus ''start'']\<rparr>)) =
          requests s @ [ApiReq, UtxoReq k]"
    using getUTXOs_requests
      [of "(fetch ApiReq s)\<lparr>blocks := h, eventEmitter := eventEmitter s @ [SyncStatus ''start'']\<rparr>"
        mk g k u for h mk k]
    by (simp add: fetch_def)
  show ?thesis
    using m le gt ev rq by (simp add: cachedBlockCount_def fetch_def)
qed

theorem getBlockCount_monotone_witness:
  "cachedBlockCount (ExplorerNetwork ''u'' (Some wallet_key)) < 7 \<and>
   getBlockCount (\<lambda>hw. ''m/44/119/0/0/0'') (Inr \<lparr>backend = Some \<lparr>b_blocks = 7\<rparr>\<rparr>)
       (Inr (JArr [])) (ExplorerNetwork ''u'' (Some wallet_key)) =
     (Inr (), (ExplorerNetwork ''u'' (Some wallet_key))
        \<lparr>blocks := 7,
          eventEmitter := [SyncStatus ''start'', UtxoEvent (JArr [])],
          requests := [ApiReq, UtxoReq ''DAddr'']\<rparr>)"
  using getBlockCount_monotone [of "ExplorerNetwork ''u'' (Some wallet_key)"
      "\<lambda>hw. ''m/44/119/0/0/0''" "Inr \<lparr>backend = Some \<lparr>b_blocks = 7\<rparr>\<rparr>" "Inr (JArr [])"]
  by (simp add: ExplorerNetwork_def wallet_key_def cachedBlockCount_def getUTXOs_def
      fetch_def emit_def)

lemma member_not_null: "data \<noteq> JNull \<Longrightarrow> \<exists>r. member name data = Inr r"
  by (cases data) auto

lemma is_string64_result_ok: "is_string64 res \<Longrightarrow> result_ok res \<and> result_converts res"
  by (cases res rule: is_string64.cases) (auto simp add: result_ok_def result_converts_def)

lemma is_txid_string_result_ok:
  "is_txid_string data \<Longrightarrow>
   \<exists>res. member ''result'' data = Inr res \<and> result_ok res \<and> result_converts res"
  by (cases data) (simp_all add: is_string64_result_ok)

text \<open>
  C4, as the code has it. For a parsed response that is not \<^verbatim>\<open>null\<close> and whose
  \<^verbatim>\<open>result\<close> member converts to a string, \<^verbatim>\<open>sendTransaction\<close> returns true and
  emits \<^verbatim>\<open>transaction-sent\<close> with true exactly when that member is truthy and its
  \<^verbatim>\<open>length\<close> is 64, which every string of 64 characters satisfies; otherwise it
  returns false and emits \<^verbatim>\<open>transaction-sent\<close> with false and the \<^verbatim>\<open>error\<close> member.
  For the response \<^verbatim>\<open>null\<close>, and when the conversion of the \<^verbatim>\<open>result\<close> member
  throws, it calls \<^verbatim>\<open>error()\<close>, emits no \<^verbatim>\<open>transaction-sent\<close> and returns nothing.
\<close>

theorem sendTransaction_by_result:
  "(data \<noteq> JNull \<longrightarrow>
      (\<exists>res err. member ''result'' data = Inr res \<and> member ''error'' data = Inr err \<and>
         sendTransaction hex (Inr data) s =
           (if \<not> result_converts res then (None, error (fetch (SendTxReq hex) s))
            else if result_ok res
            then (Some True, emit (TransactionSent True []) (fetch (SendTxReq hex) s))
            else (Some False, emit (TransactionSent False [err]) (fetch (SendTxReq hex) s))))) \<and>
   (is_txid_string data \<longrightarrow>
      sendTransaction hex (Inr data) s =
        (Some True, emit (TransactionSent True []) (fetch (SendTxReq hex) s))) \<and>
   sendTransaction hex (Inr JNull) s = (None, error (fetch (SendTxReq hex) s))"
proof (intro conjI impI)
  assume nn: "data \<noteq> JNull"
  obtain res where r: "member ''result'' data = Inr res"
    using member_not_null [OF nn] by blast
  obtain err where e: "member ''error'' data = Inr err"
    using member_not_null [OF nn] by blast
  show "\<exists>res err. member ''result'' data = Inr res \<and> member ''error'' data = Inr err \<and>
         sendTransaction hex (Inr data) s =
           (if \<not> result_converts res then (None, error (fetch (SendTxReq hex) s))
            else if result_ok res
            then (Some True, emit (TransactionSent True []) (fetch (SendTxReq hex) s))
            else (Some False, emit (TransactionSent False [err]) (fetch (SendTxReq hex) s)))"
    using r e by (simp add: sendTransaction_def)
next
  assume "is_txid_string data"
  then obtain res where "member ''result'' data = Inr res" "result_ok res" "result_converts res"
    using is_txid_string_result_ok by blast
  then show "sendTransaction hex (Inr data) s =
        (Some True, emit (TransactionSent True []) (fetch (SendTxReq hex) s))"
    by (simp add: sendTransaction_def)
next
  show "sendTransaction hex (Inr JNull) s = (None, error (fetch (SendTxReq hex) s))"
    by (simp add: sendTransaction_def)
qed

theorem sendTransaction_by_result_witness:
  "is_txid_string (JObj [(''result'', JStr (replicate 64 CHR ''a''))]) \<and>
   fst (sendTransaction ''00'' (Inr (JObj [(''result'', JStr (replicate 64 CHR ''a''))]))
          (ExplorerNetwork ''u'' None)) = Some True \<and>
   JObj [(''error'', JStr ''bad-txns'')] \<noteq> JNull \<and>
   sendTransaction ''00'' (Inr (JObj [(''error'', JStr ''bad-txns'')])) (ExplorerNetwork ''u'' None) =
     (Some False, (ExplorerNetwork ''u'' None)
        \<lparr>eventEmitter := [TransactionSent False [Some (JStr ''bad-txns'')]],
         requests := [SendTxReq ''00'']\<rparr>) \<and>
   unprintable_response \<noteq> JNull \<and>
   member ''result'' unprintable_response =
     Inr (Some (JObj [(''length'', JNum 64), (''toString'', JNum 1)])) \<and>
   \<not> result_converts (Some (JObj [(''length'', JNum 64), (''toString'', JNum 1)])) \<and>
   fst (sendTransaction ''00'' (Inr unprintable_response) (ExplorerNetwork ''u'' None)) = None"
  using sendTransaction_by_result [of "JObj [(''result'', JStr (replicate 64 CHR ''a''))]" "''00''"
      "ExplorerNetwork ''u'' None"]
    sendTransaction_by_result [of "JObj [(''error'', JStr ''bad-txns'')]" "''00''"
      "ExplorerNetwork ''u'' None"]
    sendTransaction_by_result [of unprintable_response "''00''" "ExplorerNetwork ''u'' None"]
  by (simp add: result_ok_def result_converts_def unprintable_response_def ExplorerNetwork_def
      emit_def fetch_def)

text \<open>
  The claim as it is written fails on three responses: an array of 64 elements in
  \<^verbatim>\<open>result\<close> is accepted although it is no string; for \<^verbatim>\<open>null\<close> the call returns
  neither true nor false and emits no \<^verbatim>\<open>transaction-sent\<close> event; and the same
  happens for a \<^verbatim>\<open>result\<close> that cannot be converted to a string, here one that passes
  the test of its length.
\<close>

theorem sendTransaction_string_counterexample:
  "\<not> is_txid_string (JObj [(''result'', JArr (replicate 64 JNull))]) \<and>
   sendTransaction ''00'' (Inr (JObj [(''result'', JArr (replicate 64 JNull))]))
       (ExplorerNetwork ''u'' None) =
     (Some True, (ExplorerNetwork ''u'' None)
        \<lparr>eventEmitter := [TransactionSent True []], requests := [SendTxReq ''00'']\<rparr>) \<and>
   \<not> is_txid_string JNull \<and>
   sendTransaction ''00'' (Inr JNull) (ExplorerNetwork ''u'' None) =
     (None, (ExplorerNetwork ''u'' None)
        \<lparr>p_enabled := False, eventEmitter := [NetworkToggle False],
         alerts := [(''warning'', sync_failed_msg)], requests := [SendTxReq ''00'']\<rparr>) \<and>
   \<not> is_txid_string unprintable_response \<and>
   sendTransaction ''00'' (Inr unprintable_response) (ExplorerNetwork ''u'' None) =
     (None, (ExplorerNetwork ''u'' None)
        \<lparr>p_enabled := False, eventEmitter := [NetworkToggle False],
         alerts := [(''warning'', sync_failed_msg)], requests := [SendTxReq ''00'']\<rparr>)"
  by (simp add: sendTransaction_def result_ok_def result_converts_def unprintable_response_def
      ExplorerNetwork_def emit_def fetch_def error_def enabled_def disable_def set_enabled_def
      createAlert_def)

lemma txSum_from_spec:
  "txSum_from m t v = Inr r \<Longrightarrow> r = foldl (\<lambda>t s. js_add t (summand m s)) t v"
proof (induction v arbitrary: t)
  case Nil
  then show ?case by simp
next
  case (Cons s v)
  from Cons.prems obtain as where as: "addresses s = Some as"
    by (cases "addresses s") auto
  have eq: "summand m s =
             (if length (filter (known m) as) \<noteq> 0 \<and> length as = 2
              then parseInt (io_value s) else Num 0)"
    by (simp add: summand_def as list_ex_iff filter_empty_conv)
  from Cons.prems have "txSum_from m (js_add t (summand m s)) v = Inr r"
    by (simp add: as eq)
  then show ?case
    using Cons.IH by simp
qed

lemma txSum_spec: "txSum m v = Inr r \<Longrightarrow> r = spec_txSum m v"
  by (simp add: txSum_def spec_txSum_def txSum_from_spec)

lemma is_coinstake_spec:
  "is_coinstake t = Inr b \<Longrightarrow> b = (first_output_address t = Some ''CoinStake TX'')"
  by (auto simp add: is_coinstake_def first_output_address_def split: list.splits option.splits)

lemma reward_of_spec: "reward_of C m t = Inr r \<Longrightarrow> r = spec_reward C m t"
  by (auto simp add: reward_of_def spec_reward_def split: sum.splits dest!: txSum_spec)

lemma filterE_filter:
  assumes "filterE p xs = Inr ys" and "\<And>x b. p x = Inr b \<Longrightarrow> b = q x"
  shows "ys = filter q xs"
  using assms(1)
proof (induction xs arbitrary: ys)
  case Nil
  then show ?case by simp
next
  case (Cons x xs)
  from Cons.prems obtain b where b: "p x = Inr b"
    by (cases "p x") auto
  from Cons.prems b obtain zs where zs: "filterE p xs = Inr zs"
    by (cases "filterE p xs") auto
  from Cons.prems b zs have ys: "ys = (if b then x # zs else zs)"
    by simp
  have "b = q x" by (rule assms(2) [OF b])
  moreover have "zs = filter q xs" by (rule Cons.IH [OF zs])
  ultimately show ?case using ys by simp
qed

lemma mapE_map:
  assumes "mapE f xs = Inr ys" and "\<And>x y. f x = Inr y \<Longrightarrow> y = h x"
  shows "ys = map h xs"
  using assms(1)
proof (induction xs arbitrary: ys)
  case Nil
  then show ?case by simp
next
  case (Cons x xs)
  from Cons.prems obtain y where y: "f x = Inr y"
    by (cases "f x") auto
  from Cons.prems y obtain zs where zs: "mapE f xs = Inr zs"
    by (cases "mapE f xs") auto
  from Cons.prems y zs have ys: "ys = y # zs"
    by simp
  have "y = h x" by (rule assms(2) [OF y])
  moreover have "zs = map h xs" by (rule Cons.IH [OF zs])
  ultimately show ?case using ys by simp
qed

lemma new_rewards_spec: "new_rewards C m txs = Inr rs \<Longrightarrow> rs = spec_new_rewards C m txs"
proof -
  assume a: "new_rewards C m txs = Inr rs"
  then obtain stakes rs0 where
    f: "filterE is_coinstake txs = Inr stakes" and
    g: "mapE (reward_of C m) stakes = Inr rs0" and
    h: "rs = filter (\<lambda>r. amount r \<noteq> Num 0) rs0"
    by (auto simp add: new_rewards_def split: sum.splits)
  have "stakes = filter (\<lambda>t. first_output_address t = Some ''CoinStake TX'') txs"
    by (rule filterE_filter [OF f]) (rule is_coinstake_spec)
  moreover have "rs0 = map (spec_reward C m) stakes"
    by (rule mapE_map [OF g]) (rule reward_of_spec)
  ultimately show ?thesis
    using h by (simp add: spec_new_rewards_def)
qed

lemma getStakingRewards_prefix:
  "prefix (arrRewards s) (arrRewards (snd (getStakingRewards C g resp s)))"
  by (simp add: getStakingRewards_def fetch_def Let_def split: sum.splits option.splits)

lemma getStakingRewards_no_key:
  assumes "enabled s" and "masterKey s = Some mk" and "explorer_key g mk = Inl e"
  shows "getStakingRewards C g resp s = (Inl e, s)"
  using assms by (simp add: getStakingRewards_def explorer_key_def)

lemma getStakingRewards_request:
  assumes "enabled s" and "masterKey s = Some mk" and "explorer_key g mk = Inr k"
  shows "requests (snd (getStakingRewards C g resp s)) =
           requests s @ [(if isHD mk then XpubTxsReq else AddressTxsReq) k
                           (to_height (arrRewards s))]"
  using assms
  by (simp add: getStakingRewards_def explorer_key_def fetch_def Let_def
      split: sum.splits option.splits)

lemma getStakingRewards_appended:
  assumes "enabled s" and "masterKey s = Some mk" and "explorer_key g mk = Inr k"
    and "resp = Inr (Some d)" and "transactions d = Some txs"
    and "new_rewards C (mapPaths_of mk k d) txs = Inr rs"
  shows "getStakingRewards C g resp s =
           (Inr (Some (arrRewards s @ rs)),
            s\<lparr>requests := requests s @ [(if isHD mk then XpubTxsReq else AddressTxsReq) k
                                          (to_height (arrRewards s))],
              arrRewards := arrRewards s @ rs\<rparr>)"
  using assms
  by (auto simp add: getStakingRewards_def explorer_key_def mapPaths_of_def fetch_def Let_def
      split: if_splits)

lemma new_rewards_heights:
  assumes "new_rewards C m txs = Inr rs" and "r \<in> set rs"
  shows "\<exists>t \<in> set txs. blockHeight r = t_blockHeight t"
  using assms(2) new_rewards_spec [OF assms(1)]
  by (auto simp add: spec_new_rewards_def spec_reward_def)

lemma to_height_cases:
  "to_height rs =
     (if rs = [] \<or> blockHeight (last rs) = 0 then 0 else blockHeight (last rs) - 1)"
  by (simp add: to_height_def nHeight_def)

text \<open>
  C2, as the code has it. With the network enabled and a master key set, a call of
  \<^verbatim>\<open>getStakingRewards\<close> only appends to \<^verbatim>\<open>arrRewards\<close>. When the key store throws,
  nothing is sent and nothing changes; otherwise exactly one request is sent, whose
  \<^verbatim>\<open>to\<close> is the height of the last stored reward minus one when that height is not 0,
  and 0 when the list is empty or that height is 0. When the answer holds transactions
  and no callback throws, the rewards built from them are appended and the list is
  returned. If then the bound is not 0 and the explorer has answered only transactions
  up to it, every appended reward is lower than each stored reward that is not lower
  than the last stored one: those stored heights are not fetched again.
\<close>

theorem getStakingRewards_appends:
  assumes "enabled s" and "masterKey s = Some mk"
  shows "prefix (arrRewards s) (arrRewards (snd (getStakingRewards C g resp s))) \<and>
         (\<forall>e. explorer_key g mk = Inl e \<longrightarrow> getStakingRewards C g resp s = (Inl e, s)) \<and>
         (\<forall>k. explorer_key g mk = Inr k \<longrightarrow>
            requests (snd (getStakingRewards C g resp s)) =
              requests s @ [(if isHD mk then XpubTxsReq else AddressTxsReq) k
                              (to_height (arrRewards s))]) \<and>
         to_height (arrRewards s) =
           (if arrRewards s = [] \<or> blockHeight (last (arrRewards s)) = 0 then 0
            else blockHeight (last (arrRewards s)) - 1) \<and>
         (\<forall>k d txs rs.
            explorer_key g mk = Inr k \<and> resp = Inr (Some d) \<and> transactions d = Some txs \<and>
            new_rewards C (mapPaths_of mk k d) txs = Inr rs \<longrightarrow>
            fst (getStakingRewards C g resp s) = Inr (Some (arrRewards s @ rs)) \<and>
            arrRewards (snd (getStakingRewards C g resp s)) = arrRewards s @ rs \<and>
            (to_height (arrRewards s) \<noteq> 0 \<and>
             (\<forall>t \<in> set txs. t_blockHeight t \<le> to_height (arrRewards s)) \<longrightarrow>
               (\<forall>r \<in> set rs. \<forall>r' \<in> set (arrRewards s).
                  blockHeight (last (arrRewards s)) \<le> blockHeight r' \<longrightarrow>
                  blockHeight r < blockHeight r')))"
proof (intro conjI allI impI ballI)
  show "prefix (arrRewards s) (arrRewards (snd (getStakingRewards C g resp s)))"
    by (rule getStakingRewards_prefix)
next
  fix e assume "explorer_key g mk = Inl e"
  then show "getStakingRewards C g resp s = (Inl e, s)"
    by (rule getStakingRewards_no_key [OF assms])
next
  fix k assume "explorer_key g mk = Inr k"
  then show "requests (snd (getStakingRewards C g resp s)) =
              requests s @ [(if isHD mk then XpubTxsReq else AddressTxsReq) k
                              (to_height (arrRewards s))]"
    by (rule getStakingRewards_request [OF assms])
next
  show "to_height (arrRewards s) =
           (if arrRewards s = [] \<or> blockHeight (last (arrRewards s)) = 0 then 0
            else blockHeight (last (arrRewards s)) - 1)"
    by (rule to_height_cases)
next
  fix k d txs rs
  assume h: "explorer_key g mk = Inr k \<and> resp = Inr (Some d) \<and> transactions d = Some txs \<and>
            new_rewards C (mapPaths_of mk k d) txs = Inr rs"
  then show "fst (getStakingRewards C g resp s) = Inr (Some (arrRewards s @ rs))"
    using getStakingRewards_appended [OF assms, of g k resp d txs C rs] by simp
next
  fix k d txs rs
  assume h: "explorer_key g mk = Inr k \<and> resp = Inr (Some d) \<and> transactions d = Some txs \<and>
            new_rewards C (mapPaths_of mk k d) txs = Inr rs"
  then show "arrRewards (snd (getStakingRewards C g resp s)) = arrRewards s @ rs"
    using getStakingRewards_appended [OF assms, of g k resp d txs C rs] by simp
next
  fix k d txs rs r r'
  assume h: "explorer_key g mk = Inr k \<and> resp = Inr (Some d) \<and> transactions d = Some txs \<and>
            new_rewards C (mapPaths_of mk k d) txs = Inr rs"
    and b: "to_height (arrRewards s) \<noteq> 0 \<and>
            (\<forall>t \<in> set txs. t_blockHeight t \<le> to_height (arrRewards s))"
    and r: "r \<in> set rs" and r': "r' \<in> set (arrRewards s)"
    and l: "blockHeight (last (arrRewards s)) \<le> blockHeight r'"
  from h r obtain t where t: "t \<in> set txs" "blockHeight r = t_blockHeight t"
    using new_rewards_heights by blast
  from b t have "blockHeight r \<le> to_height (arrRewards s)" by simp
  moreover from b have "to_height (arrRewards s) = blockHeight (last (arrRewards s)) - 1"
    by (simp add: to_height_cases split: if_splits)
  ultimately show "blockHeight r < blockHeight r'"
    using l by simp
qed

lemmas eval_rewards =
  parseInt_def digit_of_def is_space_def js_sub_def known_def txSum_def
  is_coinstake_def reward_of_def new_rewards_def nHeight_def to_height_def

lemma reward_of_stake_tx_at:
  "reward_of 100000000 [''DAddr'' \<mapsto> '':)''] (stake_tx_at i h) =
     Inr \<lparr>r_id = i, r_time = 1670000000, blockHeight = h, amount = Num 504\<rparr>"
  by (simp add: eval_rewards stake_tx_at_def stake_tx_def)

lemma is_coinstake_stake_tx_at: "is_coinstake (stake_tx_at i h) = Inr True"
  by (simp add: is_coinstake_def stake_tx_at_def stake_tx_def)

lemma stake_tx_as_stake_tx_at: "stake_tx = stake_tx_at ''ab12'' 3599000"
  by (simp add: stake_tx_at_def stake_tx_def)

lemma new_rewards_stake_tx:
  "new_rewards 100000000 [''DAddr'' \<mapsto> '':)''] [stake_tx] =
     Inr [\<lparr>r_id = ''ab12'', r_time = 1670000000, blockHeight = 3599000, amount = Num 504\<rparr>]"
  unfolding stake_tx_as_stake_tx_at
  by (simp add: new_rewards_def is_coinstake_stake_tx_at reward_of_stake_tx_at)

lemma new_rewards_rising:
  "new_rewards 100000000 [''DAddr'' \<mapsto> '':)'']
       [stake_tx_at ''aa01'' 100, stake_tx_at ''bb02'' 200] =
     Inr [\<lparr>r_id = ''aa01'', r_time = 1670000000, blockHeight = 100, amount = Num 504\<rparr>,
          \<lparr>r_id = ''bb02'', r_time = 1670000000, blockHeight = 200, amount = Num 504\<rparr>]"
  by (simp add: new_rewards_def is_coinstake_stake_tx_at reward_of_stake_tx_at)

lemma new_rewards_repeated:
  "new_rewards 100000000 [''DAddr'' \<mapsto> '':)''] [stake_tx_at ''aa01'' 100] =
     Inr [\<lparr>r_id = ''aa01'', r_time = 1670000000, blockHeight = 100, amount = Num 504\<rparr>]"
  by (simp add: new_rewards_def is_coinstake_stake_tx_at reward_of_stake_tx_at)

lemma getStakingRewards_stake_answer:
  "getStakingRewards 100000000 (\<lambda>hw. ''m/44/119/0/0/0'') (Inr (Some stake_answer)) staking_net =
     (Inr (Some [old_reward,
        \<lparr>r_id = ''ab12'', r_time = 1670000000, blockHeight = 3599000, amount = Num 504\<rparr>]),
      staking_net
        \<lparr>arrRewards := [old_reward,
           \<lparr>r_id = ''ab12'', r_time = 1670000000, blockHeight = 3599000, amount = Num 504\<rparr>],
         requests := [AddressTxsReq ''DAddr'' 3599999]\<rparr>)"
  by (simp add: getStakingRewards_def staking_net_def ExplorerNetwork_def wallet_key_def
      enabled_def fetch_def stake_answer_def new_rewards_stake_tx to_height_def nHeight_def
      old_reward_def)

theorem getStakingRewards_appends_witness:
  "enabled staking_net \<and> masterKey staking_net = Some wallet_key \<and>
   explorer_key (\<lambda>hw. ''m/44/119/0/0/0'') wallet_key = Inr ''DAddr'' \<and>
   transactions stake_answer = Some [stake_tx] \<and>
   new_rewards 100000000 (mapPaths_of wallet_key ''DAddr'' stake_answer) [stake_tx] =
     Inr [\<lparr>r_id = ''ab12'', r_time = 1670000000, blockHeight = 3599000, amount = Num 504\<rparr>] \<and>
   to_height (arrRewards staking_net) = 3599999 \<and>
   t_blockHeight stake_tx \<le> to_height (arrRewards staking_net) \<and>
   prefix (arrRewards staking_net)
     (arrRewards (snd (getStakingRewards 100000000 (\<lambda>hw. ''m/44/119/0/0/0'')
        (Inr (Some stake_answer)) staking_net))) \<and>
   requests (snd (getStakingRewards 100000000 (\<lambda>hw. ''m/44/119/0/0/0'')
        (Inr (Some stake_answer)) staking_net)) = [AddressTxsReq ''DAddr'' 3599999] \<and>
   fst (getStakingRewards 100000000 (\<lambda>hw. ''m/44/119/0/0/0'')
        (Inr (Some stake_answer)) staking_net) =
     Inr (Some [old_reward,
       \<lparr>r_id = ''ab12'', r_time = 1670000000, blockHeight = 3599000, amount = Num 504\<rparr>]) \<and>
   arrRewards (snd (getStakingRewards 100000000 (\<lambda>hw. ''m/44/119/0/0/0'')
        (Inr (Some stake_answer)) staking_net)) =
     [old_reward,
      \<lparr>r_id = ''ab12'', r_time = 1670000000, blockHeight = 3599000, amount = Num 504\<rparr>] \<and>
   (3599000 :: int) < blockHeight old_reward \<and>
   enabled (staking_net\<lparr>masterKey := Some hardware_key\<rparr>) \<and>
   explorer_key (\<lambda>hw. ''m/44/119/0/0/0'') hardware_key = Inl WalletError \<and>
   getStakingRewards 100000000 (\<lambda>hw. ''m/44/119/0/0/0'') (Inr (Some stake_answer))
       (staking_net\<lparr>masterKey := Some hardware_key\<rparr>) =
     (Inl WalletError, staking_net\<lparr>masterKey := Some hardware_key\<rparr>)"
proof -
  let ?g = "\<lambda>hw :: bool. ''m/44/119/0/0/0''"
  let ?r = "\<lparr>r_id = ''ab12'', r_time = 1670000000, blockHeight = 3599000, amount = Num 504\<rparr>"
  have e: "enabled staking_net"
    by (simp add: staking_net_def ExplorerNetwork_def enabled_def)
  have k: "masterKey staking_net = Some wallet_key"
    by (simp add: staking_net_def ExplorerNetwork_def)
  have x: "explorer_key ?g wallet_key = Inr ''DAddr''"
    by (simp add: explorer_key_def wallet_key_def)
  have t: "transactions stake_answer = Some [stake_tx]"
    by (simp add: stake_answer_def)
  have n: "new_rewards 100000000 (mapPaths_of wallet_key ''DAddr'' stake_answer) [stake_tx] =
             Inr [?r]"
    by (simp add: mapPaths_of_def wallet_key_def new_rewards_stake_tx)
  have a: "arrRewards staking_net = [old_reward]"
    by (simp add: staking_net_def)
  have h: "to_height (arrRewards staking_net) = 3599999"
    by (simp add: a to_height_def nHeight_def old_reward_def)
  have b: "t_blockHeight stake_tx \<le> to_height (arrRewards staking_net)"
    by (simp add: h stake_tx_def)
  have e': "enabled (staking_net\<lparr>masterKey := Some hardware_key\<rparr>)"
    by (simp add: staking_net_def ExplorerNetwork_def enabled_def)
  have k': "masterKey (staking_net\<lparr>masterKey := Some hardware_key\<rparr>) = Some hardware_key"
    by simp
  have x': "explorer_key ?g hardware_key = Inl WalletError"
    by (simp add: explorer_key_def hardware_key_def)
  have o: "blockHeight old_reward = 3600000"
    by (simp add: old_reward_def)
  have q: "requests staking_net = []"
    by (simp add: staking_net_def ExplorerNetwork_def)
  have w: "\<not> isHD wallet_key"
    by (simp add: wallet_key_def)
  note m = getStakingRewards_appends [OF e k, of 100000000 ?g "Inr (Some stake_answer)"]
  note m' = getStakingRewards_appends [OF e' k', of 100000000 ?g "Inr (Some stake_answer)"]
  from m have 4: "prefix (arrRewards staking_net)
     (arrRewards (snd (getStakingRewards 100000000 ?g (Inr (Some stake_answer)) staking_net)))"
    by (rule conjunct1)
  from m have "\<forall>k. explorer_key ?g wallet_key = Inr k \<longrightarrow>
            requests (snd (getStakingRewards 100000000 ?g (Inr (Some stake_answer)) staking_net)) =
              requests staking_net @ [(if isHD wallet_key then XpubTxsReq else AddressTxsReq) k
                              (to_height (arrRewards staking_net))]"
    by (elim conjE)
  then have 1: "requests (snd (getStakingRewards 100000000 ?g (Inr (Some stake_answer))
        staking_net)) = [AddressTxsReq ''DAddr'' 3599999]"
    using x by (simp add: h q w)
  from m have "\<forall>k d txs rs.
            explorer_key ?g wallet_key = Inr k \<and>
            (Inr (Some stake_answer) :: js_error + cData option) = Inr (Some d) \<and>
            transactions d = Some txs \<and>
            new_rewards 100000000 (mapPaths_of wallet_key k d) txs = Inr rs \<longrightarrow>
            fst (getStakingRewards 100000000 ?g (Inr (Some stake_answer)) staking_net) =
              Inr (Some (arrRewards staking_net @ rs)) \<and>
            arrRewards (snd (getStakingRewards 100000000 ?g (Inr (Some stake_answer)) staking_net)) =
              arrRewards staking_net @ rs \<and>
            (to_height (arrRewards staking_net) \<noteq> 0 \<and>
             (\<forall>t \<in> set txs. t_blockHeight t \<le> to_height (arrRewards staking_net)) \<longrightarrow>
               (\<forall>r \<in> set rs. \<forall>r' \<in> set (arrRewards staking_net).
                  blockHeight (last (arrRewards staking_net)) \<le> blockHeight r' \<longrightarrow>
                  blockHeight r < blockHeight r'))"
    by (elim conjE)
  then have u: "fst (getStakingRewards 100000000 ?g (Inr (Some stake_answer)) staking_net) =
              Inr (Some (arrRewards staking_net @ [?r])) \<and>
            arrRewards (snd (getStakingRewards 100000000 ?g (Inr (Some stake_answer)) staking_net)) =
              arrRewards staking_net @ [?r] \<and>
            (to_height (arrRewards staking_net) \<noteq> 0 \<and>
             (\<forall>t \<in> set [stake_tx]. t_blockHeight t \<le> to_height (arrRewards staking_net)) \<longrightarrow>
               (\<forall>r \<in> set [?r]. \<forall>r' \<in> set (arrRewards staking_net).
                  blockHeight (last (arrRewards staking_net)) \<le> blockHeight r' \<longrightarrow>
                  blockHeight r < blockHeight r'))"
    using x t n by blast
  from u have 2: "fst (getStakingRewards 100000000 ?g (Inr (Some stake_answer))
        staking_net) = Inr (Some [old_reward, ?r])"
    by (simp add: a)
  from u have 3: "arrRewards (snd (getStakingRewards 100000000 ?g (Inr (Some stake_answer))
        staking_net)) = [old_reward, ?r]"
    by (simp add: a)
  from u b have 5: "(3599000 :: int) < blockHeight old_reward"
    by (simp add: a h [unfolded a])
  from m' have "\<forall>e. explorer_key ?g hardware_key = Inl e \<longrightarrow>
      getStakingRewards 100000000 ?g (Inr (Some stake_answer))
          (staking_net\<lparr>masterKey := Some hardware_key\<rparr>) =
        (Inl e, staking_net\<lparr>masterKey := Some hardware_key\<rparr>)"
    by (elim conjE)
  with x' have 6: "getStakingRewards 100000000 ?g (Inr (Some stake_answer))
       (staking_net\<lparr>masterKey := Some hardware_key\<rparr>) =
     (Inl WalletError, staking_net\<lparr>masterKey := Some hardware_key\<rparr>)"
    by blast
  from e k x t n h b 1 2 3 4 5 e' x' 6 show ?thesis
    by simp
qed

lemma rising_net_eq:
  "rising_net =
     (ExplorerNetwork ''u'' (Some wallet_key))
        \<lparr>arrRewards :=
           [\<lparr>r_id = ''aa01'', r_time = 1670000000, blockHeight = 100, amount = Num 504\<rparr>,
            \<lparr>r_id = ''bb02'', r_time = 1670000000, blockHeight = 200, amount = Num 504\<rparr>],
         requests := [AddressTxsReq ''DAddr'' 0]\<rparr>"
  by (simp add: rising_net_def getStakingRewards_def ExplorerNetwork_def wallet_key_def
      enabled_def fetch_def rising_answer_def new_rewards_rising to_height_def nHeight_def)

text \<open>
  The claim as it is written fails in two ways. When the last stored reward has block
  height 0, the request carries \<^verbatim>\<open>to=0\<close>, not that height minus one. And a stored
  height can be fetched again: after an answer that lists the heights 100 and 200 in
  this order the list ends with the height 200, the next request carries \<^verbatim>\<open>to=199\<close>,
  and an answer within this bound that holds the transaction of height 100 again is
  appended, so that the list holds that reward twice.
\<close>

theorem getStakingRewards_to_counterexample:
  "enabled zero_height_net \<and> masterKey zero_height_net = Some wallet_key \<and>
   arrRewards zero_height_net \<noteq> [] \<and>
   blockHeight (last (arrRewards zero_height_net)) - 1 = - 1 \<and>
   requests (snd (getStakingRewards 100000000 (\<lambda>hw. ''m/44/119/0/0/0'')
        (Inr (Some stake_answer)) zero_height_net)) = [AddressTxsReq ''DAddr'' 0] \<and>
   enabled rising_net \<and> masterKey rising_net = Some wallet_key \<and>
   map r_id (arrRewards rising_net) = [''aa01'', ''bb02''] \<and>
   map blockHeight (arrRewards rising_net) = [100, 200] \<and>
   requests rising_net = [AddressTxsReq ''DAddr'' 0] \<and>
   transactions repeated_answer = Some [stake_tx_at ''aa01'' 100] \<and>
   t_blockHeight (stake_tx_at ''aa01'' 100) \<le> 199 \<and>
   requests (snd (getStakingRewards 100000000 (\<lambda>hw. ''m/44/119/0/0/0'')
        (Inr (Some repeated_answer)) rising_net)) =
     [AddressTxsReq ''DAddr'' 0, AddressTxsReq ''DAddr'' 199] \<and>
   map r_id (arrRewards (snd (getStakingRewards 100000000 (\<lambda>hw. ''m/44/119/0/0/0'')
        (Inr (Some repeated_answer)) rising_net))) = [''aa01'', ''bb02'', ''aa01''] \<and>
   map blockHeight (arrRewards (snd (getStakingRewards 100000000 (\<lambda>hw. ''m/44/119/0/0/0'')
        (Inr (Some repeated_answer)) rising_net))) = [100, 200, 100]"
proof -
  have z: "enabled zero_height_net \<and> masterKey zero_height_net = Some wallet_key \<and>
   arrRewards zero_height_net \<noteq> [] \<and>
   blockHeight (last (arrRewards zero_height_net)) - 1 = - 1 \<and>
   requests (snd (getStakingRewards 100000000 (\<lambda>hw. ''m/44/119/0/0/0'')
        (Inr (Some stake_answer)) zero_height_net)) = [AddressTxsReq ''DAddr'' 0]"
    by (simp add: getStakingRewards_def zero_height_net_def zero_reward_def ExplorerNetwork_def
      wallet_key_def enabled_def fetch_def stake_answer_def new_rewards_stake_tx to_height_def
      nHeight_def)
  have r: "enabled rising_net \<and> masterKey rising_net = Some wallet_key \<and>
   map r_id (arrRewards rising_net) = [''aa01'', ''bb02''] \<and>
   map blockHeight (arrRewards rising_net) = [100, 200] \<and>
   requests rising_net = [AddressTxsReq ''DAddr'' 0]"
    by (simp add: rising_net_eq ExplorerNetwork_def enabled_def)
  have t: "transactions repeated_answer = Some [stake_tx_at ''aa01'' 100] \<and>
   t_blockHeight (stake_tx_at ''aa01'' 100) \<le> 199"
    by (simp add: repeated_answer_def stake_tx_at_def)
  have s: "snd (getStakingRewards 100000000 (\<lambda>hw. ''m/44/119/0/0/0'')
        (Inr (Some repeated_answer)) rising_net) =
      rising_net
        \<lparr>arrRewards :=
           [\<lparr>r_id = ''aa01'', r_time = 1670000000, blockHeight = 100, amount = Num 504\<rparr>,
            \<lparr>r_id = ''bb02'', r_time = 1670000000, blockHeight = 200, amount = Num 504\<rparr>,
            \<lparr>r_id = ''aa01'', r_time = 1670000000, blockHeight = 100, amount = Num 504\<rparr>],
         requests := [AddressTxsReq ''DAddr'' 0, AddressTxsReq ''DAddr'' 199]\<rparr>"
    by (simp add: rising_net_eq getStakingRewards_def ExplorerNetwork_def wallet_key_def
      enabled_def fetch_def repeated_answer_def new_rewards_repeated to_height_def nHeight_def)
  from z r t show ?thesis
    unfolding s by simp
qed

lemma toplevel_method_agree:
  assumes "networkEnabled g = enabled s" and "g_masterKey g = masterKey s"
    and "g_arrRewards g = arrRewards s"
  shows "g_arrRewards (snd (getStakingRewards_toplevel C gdp resp g)) =
           arrRewards (snd (getStakingRewards C gdp resp s))"
    and "(fst (getStakingRewards_toplevel C gdp resp g) = Inl e) =
           (fst (getStakingRewards C gdp resp s) = Inl e)"
    and "\<exists>q. g_requests (snd (getStakingRewards_toplevel C gdp resp g)) = g_requests g @ q \<and>
             requests (snd (getStakingRewards C gdp resp s)) = requests s @ q"
  using assms
  by (auto simp add: getStakingRewards_toplevel_def getStakingRewards_def fetch_def Let_def
      stopAnim_def updateStakingRewardsGUI_callback_def split: sum.splits option.splits)

lemma method_appends_spec:
  assumes "enabled s" and "masterKey s = Some mk" and "explorer_key gdp mk = Inr k"
    and "resp = Inr (Some d)" and "transactions d = Some txs"
    and "new_rewards C (mapPaths_of mk k d) txs = Inr rs"
  shows "arrRewards (snd (getStakingRewards C gdp resp s)) =
           arrRewards s @ spec_new_rewards C (mapPaths_of mk k d) txs"
  using assms new_rewards_spec [OF assms(6)]
  by (auto simp add: getStakingRewards_def explorer_key_def mapPaths_of_def fetch_def Let_def
      split: sum.splits option.splits if_splits)

text \<open>
  C8. Started from the same enabled flag, master key and rewards list, and given the
  same answer of the explorer, the top-level \<^verbatim>\<open>getStakingRewards\<close> and the method
  leave the same rewards list, throw in the same cases and send the same request. When
  the answer holds transactions and no callback throws, the part both append is the one
  the specification describes: the coin-stake transactions, turned into records, without
  those of amount 0.
\<close>

theorem toplevel_getStakingRewards_same_update:
  assumes "networkEnabled g = enabled s" and "g_masterKey g = masterKey s"
    and "g_arrRewards g = arrRewards s"
  shows "g_arrRewards (snd (getStakingRewards_toplevel C gdp resp g)) =
           arrRewards (snd (getStakingRewards C gdp resp s)) \<and>
         (\<forall>e. (fst (getStakingRewards_toplevel C gdp resp g) = Inl e) =
               (fst (getStakingRewards C gdp resp s) = Inl e)) \<and>
         (\<exists>q. g_requests (snd (getStakingRewards_toplevel C gdp resp g)) = g_requests g @ q \<and>
              requests (snd (getStakingRewards C gdp resp s)) = requests s @ q) \<and>
         (\<forall>mk k d txs rs.
            enabled s \<and> masterKey s = Some mk \<and> explorer_key gdp mk = Inr k \<and>
            resp = Inr (Some d) \<and> transactions d = Some txs \<and>
            new_rewards C (mapPaths_of mk k d) txs = Inr rs \<longrightarrow>
            g_arrRewards (snd (getStakingRewards_toplevel C gdp resp g)) =
              arrRewards s @ spec_new_rewards C (mapPaths_of mk k d) txs)"
proof (intro conjI allI impI)
  show "g_arrRewards (snd (getStakingRewards_toplevel C gdp resp g)) =
           arrRewards (snd (getStakingRewards C gdp resp s))"
    by (rule toplevel_method_agree(1) [OF assms])
next
  fix e
  show "(fst (getStakingRewards_toplevel C gdp resp g) = Inl e) =
               (fst (getStakingRewards C gdp resp s) = Inl e)"
    by (rule toplevel_method_agree(2) [OF assms])
next
  show "\<exists>q. g_requests (snd (getStakingRewards_toplevel C gdp resp g)) = g_requests g @ q \<and>
              requests (snd (getStakingRewards C gdp resp s)) = requests s @ q"
    by (rule toplevel_method_agree(3) [OF assms])
next
  fix mk k d txs rs
  assume h: "enabled s \<and> masterKey s = Some mk \<and> explorer_key gdp mk = Inr k \<and>
            resp = Inr (Some d) \<and> transactions d = Some txs \<and>
            new_rewards C (mapPaths_of mk k d) txs = Inr rs"
  then have "arrRewards (snd (getStakingRewards C gdp resp s)) =
           arrRewards s @ spec_new_rewards C (mapPaths_of mk k d) txs"
    using method_appends_spec by blast
  then show "g_arrRewards (snd (getStakingRewards_toplevel C gdp resp g)) =
              arrRewards s @ spec_new_rewards C (mapPaths_of mk k d) txs"
    using toplevel_method_agree(1) [OF assms, of C gdp resp] by simp
qed

theorem toplevel_getStakingRewards_same_update_witness:
  "networkEnabled staking_globals = enabled staking_net \<and>
   g_masterKey staking_globals = masterKey staking_net \<and>
   g_arrRewards staking_globals = arrRewards staking_net \<and>
   g_arrRewards (snd (getStakingRewards_toplevel 100000000 (\<lambda>hw. ''m/44/119/0/0/0'')
      (Inr (Some stake_answer)) staking_globals)) =
     [old_reward,
      \<lparr>r_id = ''ab12'', r_time = 1670000000, blockHeight = 3599000, amount = Num 504\<rparr>]"
proof -
  have a: "networkEnabled staking_globals = enabled staking_net"
    by (simp add: staking_globals_def staking_net_def ExplorerNetwork_def enabled_def)
  have b: "g_masterKey staking_globals = masterKey staking_net"
    by (simp add: staking_globals_def staking_net_def ExplorerNetwork_def)
  have c: "g_arrRewards staking_globals = arrRewards staking_net"
    by (simp add: staking_globals_def staking_net_def)
  show ?thesis
    using a b c getStakingRewards_stake_answer
      toplevel_getStakingRewards_same_update [OF a b c, of 100000000
        "\<lambda>hw. ''m/44/119/0/0/0''" "Inr (Some stake_answer)"]
    by simp
qed

lemma rewrite_path_returns:
  assumes "p = None \<or> p = Some [] \<or> masterKey s \<noteq> None"
  shows "\<exists>path s1. rewrite_path cp p s = Inr (path, s1) \<and> blocks s1 = blocks s"
  using assms
  by (auto simp add: rewrite_path_def Let_def split: option.splits)

lemma rewrite_path_keyless:
  assumes "p = Some str" and "str \<noteq> []" and "masterKey s = None"
  shows "rewrite_path cp p s = Inl TypeError"
  using assms by (simp add: rewrite_path_def)

lemma getUTXOFullInfo_without_key:
  assumes "ts_vout cTx = Some outs" and "c_path cUTXO = Some str" and "str \<noteq> []"
    and "masterKey s = None"
  shows "fst (getUTXOFullInfo COIN cp (Inr cTx) cUTXO s) = Inl TypeError"
proof -
  have "masterKey (fetch (TxSpecificReq (c_txid cUTXO)) s) = None"
    using assms(4) by (simp add: fetch_def)
  from rewrite_path_keyless [OF assms(2) assms(3) this, of cp] show ?thesis
    using assms(1) by (simp add: getUTXOFullInfo_def Let_def)
qed

lemma getUTXOFullInfo_keyed:
  assumes "ts_vout cTx = Some outs"
    and "c_path cUTXO = None \<or> c_path cUTXO = Some [] \<or> masterKey s \<noteq> None"
  shows "fst (getUTXOFullInfo COIN cp (Inr cTx) cUTXO s) =
           (if length outs \<le> c_vout cUTXO then Inl TypeError
            else if spk_type (v_scriptPubKey (outs ! c_vout cUTXO)) \<noteq> ''coldstake'' \<and>
                    spk_type (v_scriptPubKey (outs ! c_vout cUTXO)) \<noteq> ''pubkeyhash''
            then Inr None
            else Inr (Some
                   \<lparr>u_id = c_txid cUTXO,
                    u_path = fst (projr (rewrite_path cp (c_path cUTXO)
                                           (fetch (TxSpecificReq (c_txid cUTXO)) s))),
                    sats = math_round (js_times (double_of (v_value (outs ! c_vout cUTXO)))
                                         (number COIN)),
                    script = spk_hex (v_scriptPubKey (outs ! c_vout cUTXO)),
                    u_vout = v_n (outs ! c_vout cUTXO),
                    height = cachedBlockCount s - (confirmations cTx - 1),
                    status = (if confirmations cTx < 1 then PENDING else CONFIRMED),
                    isDelegate =
                      (spk_type (v_scriptPubKey (outs ! c_vout cUTXO)) = ''coldstake''),
                    isReward = (spk_hex (v_scriptPubKey (outs ! 0)) = [])\<rparr>))"
proof -
  have "c_path cUTXO = None \<or> c_path cUTXO = Some [] \<or>
        masterKey (fetch (TxSpecificReq (c_txid cUTXO)) s) \<noteq> None"
    using assms(2) by (simp add: fetch_def)
  from rewrite_path_returns [OF this, of cp]
  obtain path s1 where
    r: "rewrite_path cp (c_path cUTXO) (fetch (TxSpecificReq (c_txid cUTXO)) s) = Inr (path, s1)"
    and b: "blocks s1 = blocks s"
    by (auto simp add: fetch_def)
  show ?thesis
    using r b assms(1)
    by (simp add: getUTXOFullInfo_def cachedBlockCount_def Let_def)
qed

text \<open>
  C3, as the code has it. For a fetched transaction without a list of outputs the call
  throws. With one, it throws when the UTXO carries a path and no master key is set, and
  when the selected output does not exist. Otherwise \<^verbatim>\<open>getUTXOFullInfo\<close> returns
  \<^verbatim>\<open>null\<close> when the type of the selected output is neither \<^verbatim>\<open>coldstake\<close> nor
  \<^verbatim>\<open>pubkeyhash\<close>, and else a UTXO that is pending exactly when the transaction has
  fewer than 1 confirmations and confirmed otherwise, is a delegation exactly when the
  type is \<^verbatim>\<open>coldstake\<close>, is a reward exactly when the first output has an empty
  script, and has the height \<^verbatim>\<open>cachedBlockCount - (confirmations - 1)\<close>. Its satoshis
  are \<^verbatim>\<open>Math.round\<close> of the product of the doubles \<^verbatim>\<open>value\<close> and \<^verbatim>\<open>COIN\<close>: when that
  product is a finite number \<open>p\<close>, they are the integer \<open>n\<close> with
  \<open>n - 1/2 \<le> p < n + 1/2\<close>.
\<close>

theorem getUTXOFullInfo_result:
  "(ts_vout cTx = None \<longrightarrow>
      fst (getUTXOFullInfo COIN cp (Inr cTx) cUTXO s) = Inl TypeError) \<and>
   (\<forall>outs. ts_vout cTx = Some outs \<longrightarrow>
      (if (\<exists>str. c_path cUTXO = Some str \<and> str \<noteq> []) \<and> masterKey s = None \<or>
          length outs \<le> c_vout cUTXO
       then fst (getUTXOFullInfo COIN cp (Inr cTx) cUTXO s) = Inl TypeError
       else if spk_type (v_scriptPubKey (outs ! c_vout cUTXO)) \<noteq> ''coldstake'' \<and>
               spk_type (v_scriptPubKey (outs ! c_vout cUTXO)) \<noteq> ''pubkeyhash''
       then fst (getUTXOFullInfo COIN cp (Inr cTx) cUTXO s) = Inr None
       else (\<exists>u. fst (getUTXOFullInfo COIN cp (Inr cTx) cUTXO s) = Inr (Some u) \<and>
               (status u = PENDING) = (confirmations cTx < 1) \<and>
               (status u = CONFIRMED) = (\<not> confirmations cTx < 1) \<and>
               isDelegate u =
                 (spk_type (v_scriptPubKey (outs ! c_vout cUTXO)) = ''coldstake'') \<and>
               isReward u = (spk_hex (v_scriptPubKey (outs ! 0)) = []) \<and>
               sats u = math_round (js_times (double_of (v_value (outs ! c_vout cUTXO)))
                                      (number COIN)) \<and>
               (\<forall>p. js_times (double_of (v_value (outs ! c_vout cUTXO))) (number COIN) = Num p
                  \<longrightarrow> (\<exists>n. sats u = Num (of_int n) \<and>
                            of_int n - 1 / 2 \<le> p \<and> p < of_int n + 1 / 2)) \<and>
               height u = cachedBlockCount s - (confirmations cTx - 1))))"
proof (intro conjI allI impI)
  assume "ts_vout cTx = None"
  then show "fst (getUTXOFullInfo COIN cp (Inr cTx) cUTXO s) = Inl TypeError"
    by (simp add: getUTXOFullInfo_def Let_def)
next
  fix outs
  assume o: "ts_vout cTx = Some outs"
  let ?P = "\<lambda>u. (status u = PENDING) = (confirmations cTx < 1) \<and>
               (status u = CONFIRMED) = (\<not> confirmations cTx < 1) \<and>
               isDelegate u =
                 (spk_type (v_scriptPubKey (outs ! c_vout cUTXO)) = ''coldstake'') \<and>
               isReward u = (spk_hex (v_scriptPubKey (outs ! 0)) = []) \<and>
               sats u = math_round (js_times (double_of (v_value (outs ! c_vout cUTXO)))
                                      (number COIN)) \<and>
               (\<forall>p. js_times (double_of (v_value (outs ! c_vout cUTXO))) (number COIN) = Num p
                  \<longrightarrow> (\<exists>n. sats u = Num (of_int n) \<and>
                            of_int n - 1 / 2 \<le> p \<and> p < of_int n + 1 / 2)) \<and>
               height u = cachedBlockCount s - (confirmations cTx - 1)"
  show "if (\<exists>str. c_path cUTXO = Some str \<and> str \<noteq> []) \<and> masterKey s = None \<or>
          length outs \<le> c_vout cUTXO
       then fst (getUTXOFullInfo COIN cp (Inr cTx) cUTXO s) = Inl TypeError
       else if spk_type (v_scriptPubKey (outs ! c_vout cUTXO)) \<noteq> ''coldstake'' \<and>
               spk_type (v_scriptPubKey (outs ! c_vout cUTXO)) \<noteq> ''pubkeyhash''
       then fst (getUTXOFullInfo COIN cp (Inr cTx) cUTXO s) = Inr None
       else (\<exists>u. fst (getUTXOFullInfo COIN cp (Inr cTx) cUTXO s) = Inr (Some u) \<and> ?P u)"
  proof (cases "(\<exists>str. c_path cUTXO = Some str \<and> str \<noteq> []) \<and> masterKey s = None")
    case True
    then obtain str where "c_path cUTXO = Some str" "str \<noteq> []" "masterKey s = None"
      by blast
    from getUTXOFullInfo_without_key [OF o this, of COIN cp]
    show ?thesis using True by simp
  next
    case c: False
    then have k: "c_path cUTXO = None \<or> c_path cUTXO = Some [] \<or> masterKey s \<noteq> None"
      by (cases "c_path cUTXO") auto
    note e = getUTXOFullInfo_keyed [OF o k, of COIN cp]
    show ?thesis
    proof (cases "length outs \<le> c_vout cUTXO")
      case True
      with e have "fst (getUTXOFullInfo COIN cp (Inr cTx) cUTXO s) = Inl TypeError"
        by simp
      then show ?thesis using True by simp
    next
      case l: False
      with c have c': "\<not> ((\<exists>str. c_path cUTXO = Some str \<and> str \<noteq> []) \<and> masterKey s = None \<or>
          length outs \<le> c_vout cUTXO)"
        by blast
      show ?thesis
      proof (cases "spk_type (v_scriptPubKey (outs ! c_vout cUTXO)) \<noteq> ''coldstake'' \<and>
               spk_type (v_scriptPubKey (outs ! c_vout cUTXO)) \<noteq> ''pubkeyhash''")
        case t: True
        with e l have "fst (getUTXOFullInfo COIN cp (Inr cTx) cUTXO s) = Inr None"
          by simp
        then show ?thesis
          using c' t by simp
      next
        case t: False
        from e l t obtain u where
          u: "fst (getUTXOFullInfo COIN cp (Inr cTx) cUTXO s) = Inr (Some u)"
          and f: "status u = (if confirmations cTx < 1 then PENDING else CONFIRMED)"
            "isDelegate u = (spk_type (v_scriptPubKey (outs ! c_vout cUTXO)) = ''coldstake'')"
            "isReward u = (spk_hex (v_scriptPubKey (outs ! 0)) = [])"
            "sats u = math_round (js_times (double_of (v_value (outs ! c_vout cUTXO)))
                                      (number COIN))"
            "height u = cachedBlockCount s - (confirmations cTx - 1)"
          by simp
        have "\<forall>p. js_times (double_of (v_value (outs ! c_vout cUTXO))) (number COIN) = Num p
                  \<longrightarrow> (\<exists>n. sats u = Num (of_int n) \<and>
                            of_int n - 1 / 2 \<le> p \<and> p < of_int n + 1 / 2)"
          using f(4) by simp linarith
        with f have "?P u" by simp
        with u have "\<exists>u. fst (getUTXOFullInfo COIN cp (Inr cTx) cUTXO s) = Inr (Some u) \<and> ?P u"
          by blast
        then show ?thesis
          by (simp only: c' t if_False)
      qed
    qed
  qed
qed

lemma cold_tx_outputs:
  "ts_vout cold_tx = Some (the (ts_vout cold_tx))"
  "length (the (ts_vout cold_tx)) = 2"
  "spk_type (v_scriptPubKey (the (ts_vout cold_tx) ! 0)) = ''nonstandard''"
  "spk_type (v_scriptPubKey (the (ts_vout cold_tx) ! Suc 0)) = ''coldstake''"
  "spk_hex (v_scriptPubKey (the (ts_vout cold_tx) ! 0)) = []"
  "v_value (the (ts_vout cold_tx) ! Suc 0) = 1009 / 2"
  "confirmations cold_tx = 12"
  by (simp_all add: cold_tx_def)

lemma dust_tx_outputs:
  "ts_vout dust_tx = Some (the (ts_vout dust_tx))"
  "length (the (ts_vout dust_tx)) = 2"
  "spk_type (v_scriptPubKey (the (ts_vout dust_tx) ! 0)) = ''pubkeyhash''"
  "spk_type (v_scriptPubKey (the (ts_vout dust_tx) ! Suc 0)) = ''pubkeyhash''"
  "spk_hex (v_scriptPubKey (the (ts_vout dust_tx) ! 0)) = ''76a914aa''"
  "v_value (the (ts_vout dust_tx) ! 0) = 15 / 1000000000"
  "v_value (the (ts_vout dust_tx) ! Suc 0) = 16 / 1000000000"
  "confirmations dust_tx = 0"
  by (simp_all add: dust_tx_def)

lemma sats_1009_half:
  "math_round (js_times (double_of (1009 / 2)) (Num 100000000)) = Num 50450000000"
  by (simp add: double_of_1009_half)

lemma sats_15e_9:
  "math_round (js_times (double_of (15 / 1000000000)) (number 100000000)) = Num 1"
proof -
  have n: "number 100000000 = Num 100000000"
    by simp
  have "js_times (double_of (15 / 1000000000)) (number 100000000) =
          double_of (4533471823554859 / 302231454903657293676544 * 100000000)"
    by (simp only: double_of_15e_9 n js_times.simps)
  also have "\<dots> = Num (6755399441055743 / 4503599627370496)"
    by (rule double_of_15e_9_times)
  finally show ?thesis by simp
qed

lemma sats_16e_9:
  "math_round (js_times (double_of (16 / 1000000000)) (number 100000000)) = Num 2"
proof -
  have n: "number 100000000 = Num 100000000"
    by simp
  have "js_times (double_of (16 / 1000000000)) (number 100000000) =
          double_of (4835703278458517 / 302231454903657293676544 * 100000000)"
    by (simp only: double_of_16e_9 n js_times.simps)
  also have "\<dots> = Num (3602879701896397 / 2251799813685248)"
    by (rule double_of_16e_9_times)
  finally show ?thesis by simp
qed

lemma dust_tx_sats:
  "math_round (js_times (double_of (v_value (the (ts_vout dust_tx) ! 0))) (Num 100000000)) = Num 1"
  "math_round (js_times (double_of (v_value (the (ts_vout dust_tx) ! Suc 0))) (Num 100000000)) =
     Num 2"
proof -
  have n: "number 100000000 = Num 100000000"
    by simp
  show "math_round (js_times (double_of (v_value (the (ts_vout dust_tx) ! 0))) (Num 100000000)) =
          Num 1"
    unfolding dust_tx_outputs(6) using sats_15e_9 unfolding n .
  show "math_round (js_times (double_of (v_value (the (ts_vout dust_tx) ! Suc 0)))
          (Num 100000000)) = Num 2"
    unfolding dust_tx_outputs(7) using sats_16e_9 unfolding n .
qed

theorem getUTXOFullInfo_result_witness:
  "ts_vout cold_tx \<noteq> None \<and> c_vout cold_utxo < length (the (ts_vout cold_tx)) \<and>
   spk_type (v_scriptPubKey (the (ts_vout cold_tx) ! c_vout cold_utxo)) = ''coldstake'' \<and>
   v_value (the (ts_vout cold_tx) ! c_vout cold_utxo) = 1009 / 2 \<and>
   (\<exists>u. fst (getUTXOFullInfo 100000000 pivx_params (Inr cold_tx) cold_utxo
               ((ExplorerNetwork ''u'' (Some wallet_key))\<lparr>blocks := 3600000\<rparr>)) = Inr (Some u) \<and>
        status u = CONFIRMED \<and> isDelegate u \<and> isReward u \<and>
        sats u = Num 50450000000 \<and> height u = 3599989) \<and>
   v_value (the (ts_vout dust_tx) ! c_vout (dust_utxo 0)) = 15 / 1000000000 \<and>
   (\<exists>u. fst (getUTXOFullInfo 100000000 pivx_params (Inr dust_tx) (dust_utxo 0)
               (ExplorerNetwork ''u'' None)) = Inr (Some u) \<and>
        status u = PENDING \<and> \<not> isDelegate u \<and> \<not> isReward u \<and> sats u = Num 1) \<and>
   v_value (the (ts_vout dust_tx) ! c_vout (dust_utxo 1)) = 16 / 1000000000 \<and>
   (\<exists>u. fst (getUTXOFullInfo 100000000 pivx_params (Inr dust_tx) (dust_utxo 1)
               (ExplorerNetwork ''u'' None)) = Inr (Some u) \<and>
        status u = PENDING \<and> \<not> isDelegate u \<and> \<not> isReward u \<and> sats u = Num 2) \<and>
   spk_type (v_scriptPubKey (the (ts_vout cold_tx) ! c_vout (dust_utxo 0))) = ''nonstandard'' \<and>
   fst (getUTXOFullInfo 100000000 pivx_params (Inr cold_tx) (dust_utxo 0)
          (ExplorerNetwork ''u'' None)) = Inr None \<and>
   length (the (ts_vout dust_tx)) \<le> c_vout (dust_utxo 2) \<and>
   fst (getUTXOFullInfo 100000000 pivx_params (Inr dust_tx) (dust_utxo 2)
          (ExplorerNetwork ''u'' None)) = Inl TypeError \<and>
   c_path cold_utxo \<noteq> None \<and> c_path cold_utxo \<noteq> Some [] \<and>
   masterKey (ExplorerNetwork ''u'' None) = None \<and>
   fst (getUTXOFullInfo 100000000 pivx_params (Inr cold_tx) cold_utxo
          (ExplorerNetwork ''u'' None)) = Inl TypeError \<and>
   ts_vout (cold_tx\<lparr>ts_vout := None\<rparr>) = None \<and>
   fst (getUTXOFullInfo 100000000 pivx_params (Inr (cold_tx\<lparr>ts_vout := None\<rparr>)) cold_utxo
          (ExplorerNetwork ''u'' None)) = Inl TypeError"
proof -
  let ?keyed = "(ExplorerNetwork ''u'' (Some wallet_key))\<lparr>blocks := 3600000\<rparr>"
  let ?keyless = "ExplorerNetwork ''u'' None"
  have c: "c_vout cold_utxo = Suc 0" "c_path cold_utxo \<noteq> None" "c_path cold_utxo \<noteq> Some []"
      "\<exists>str. c_path cold_utxo = Some str \<and> str \<noteq> []"
    by (simp_all add: cold_utxo_def)
  have d: "\<And>i. c_vout (dust_utxo i) = i" "\<And>i. c_path (dust_utxo i) = None"
    by (simp_all add: dust_utxo_def)
  note m = ExplorerNetwork_def cachedBlockCount_def One_nat_def
  note co = cold_tx_outputs(2-7)
  note du = dust_tx_outputs(2-5,8)
  from getUTXOFullInfo_result [where cTx = cold_tx and COIN = 100000000 and cp = pivx_params
      and cUTXO = cold_utxo and s = ?keyed, THEN conjunct2, THEN spec, THEN mp, OF cold_tx_outputs(1)]
  have 1: "\<exists>u. fst (getUTXOFullInfo 100000000 pivx_params (Inr cold_tx) cold_utxo ?keyed) =
               Inr (Some u) \<and>
        status u = CONFIRMED \<and> isDelegate u \<and> isReward u \<and>
        sats u = Num 50450000000 \<and> height u = 3599989"
    by (simp add: c m co sats_1009_half) blast
  from getUTXOFullInfo_result [where cTx = dust_tx and COIN = 100000000 and cp = pivx_params
      and cUTXO = "dust_utxo 0" and s = ?keyless, THEN conjunct2, THEN spec, THEN mp, OF dust_tx_outputs(1)]
  have 2: "\<exists>u. fst (getUTXOFullInfo 100000000 pivx_params (Inr dust_tx) (dust_utxo 0) ?keyless) =
               Inr (Some u) \<and>
        status u = PENDING \<and> \<not> isDelegate u \<and> \<not> isReward u \<and> sats u = Num 1"
    by (simp add: d du dust_tx_sats One_nat_def) blast
  from getUTXOFullInfo_result [where cTx = dust_tx and COIN = 100000000 and cp = pivx_params
      and cUTXO = "dust_utxo 1" and s = ?keyless, THEN conjunct2, THEN spec, THEN mp, OF dust_tx_outputs(1)]
  have 3: "\<exists>u. fst (getUTXOFullInfo 100000000 pivx_params (Inr dust_tx) (dust_utxo 1) ?keyless) =
               Inr (Some u) \<and>
        status u = PENDING \<and> \<not> isDelegate u \<and> \<not> isReward u \<and> sats u = Num 2"
    by (simp add: d du dust_tx_sats One_nat_def) blast
  from getUTXOFullInfo_result [where cTx = cold_tx and COIN = 100000000 and cp = pivx_params
      and cUTXO = "dust_utxo 0" and s = ?keyless, THEN conjunct2, THEN spec, THEN mp, OF cold_tx_outputs(1)]
  have 4: "fst (getUTXOFullInfo 100000000 pivx_params (Inr cold_tx) (dust_utxo 0) ?keyless) =
             Inr None"
    by (simp add: d co One_nat_def)
  from getUTXOFullInfo_result [where cTx = dust_tx and COIN = 100000000 and cp = pivx_params
      and cUTXO = "dust_utxo 2" and s = ?keyless, THEN conjunct2, THEN spec, THEN mp, OF dust_tx_outputs(1)]
  have 5: "fst (getUTXOFullInfo 100000000 pivx_params (Inr dust_tx) (dust_utxo 2) ?keyless) =
             Inl TypeError"
    by (simp add: d du One_nat_def)
  from getUTXOFullInfo_result [where cTx = cold_tx and COIN = 100000000 and cp = pivx_params
      and cUTXO = cold_utxo and s = ?keyless, THEN conjunct2, THEN spec, THEN mp, OF cold_tx_outputs(1)]
  have 6: "fst (getUTXOFullInfo 100000000 pivx_params (Inr cold_tx) cold_utxo ?keyless) =
             Inl TypeError"
    by (simp add: c m)
  from getUTXOFullInfo_result [where cTx = "cold_tx\<lparr>ts_vout := None\<rparr>" and COIN = 100000000
      and cp = pivx_params and cUTXO = cold_utxo and s = ?keyless, THEN conjunct1]
  have 7: "fst (getUTXOFullInfo 100000000 pivx_params (Inr (cold_tx\<lparr>ts_vout := None\<rparr>))
                  cold_utxo ?keyless) = Inl TypeError"
    by simp
  have 8: "ts_vout cold_tx \<noteq> None"
    by (simp add: cold_tx_def)
  from 1 2 3 4 5 6 7 8 show ?thesis
    by (simp add: c d m co dust_tx_outputs(2-8))
qed

text \<open>
  The claim as it is written fails for a fetched transaction whose selected output is a
  cold-staking one when the UTXO carries a path and the network has no master key: the
  call throws and returns no UTXO. It throws as well when the transaction has two
  outputs and the UTXO selects a third. And the satoshis are not the rounded exact
  product: for the amount 0.000000015 and \<^verbatim>\<open>COIN\<close> = 100000000 the exact product is
  1.5, which rounds to 2, while the product of the doubles lies below 1.5 and the UTXO
  holds 1.
\<close>

theorem getUTXOFullInfo_keyless_counterexample:
  "ts_vout cold_tx \<noteq> None \<and> c_vout cold_utxo < length (the (ts_vout cold_tx)) \<and>
   spk_type (v_scriptPubKey (the (ts_vout cold_tx) ! c_vout cold_utxo)) = ''coldstake'' \<and>
   c_path cold_utxo = Some (''m/44'' @ [CHR 0x27] @ ''/1/0/0/7'') \<and>
   masterKey (ExplorerNetwork ''u'' None) = None \<and>
   getUTXOFullInfo 100000000 pivx_params (Inr cold_tx) cold_utxo (ExplorerNetwork ''u'' None) =
     (Inl TypeError, fetch (TxSpecificReq ''ab12'') (ExplorerNetwork ''u'' None)) \<and>
   length (the (ts_vout dust_tx)) = 2 \<and> c_vout (dust_utxo 2) = 2 \<and>
   fst (getUTXOFullInfo 100000000 pivx_params (Inr dust_tx) (dust_utxo 2)
          (ExplorerNetwork ''u'' None)) = Inl TypeError \<and>
   spk_type (v_scriptPubKey (the (ts_vout dust_tx) ! c_vout (dust_utxo 0))) = ''pubkeyhash'' \<and>
   v_value (the (ts_vout dust_tx) ! c_vout (dust_utxo 0)) = 15 / 1000000000 \<and>
   \<lfloor>v_value (the (ts_vout dust_tx) ! c_vout (dust_utxo 0)) * 100000000 + 1 / 2\<rfloor> = 2 \<and>
   map_option sats (projr (fst (getUTXOFullInfo 100000000 pivx_params (Inr dust_tx) (dust_utxo 0)
      (ExplorerNetwork ''u'' None)))) = Some (Num 1)"
proof -
  have a: "ts_vout cold_tx \<noteq> None \<and> c_vout cold_utxo < length (the (ts_vout cold_tx)) \<and>
   spk_type (v_scriptPubKey (the (ts_vout cold_tx) ! c_vout cold_utxo)) = ''coldstake'' \<and>
   c_path cold_utxo = Some (''m/44'' @ [CHR 0x27] @ ''/1/0/0/7'') \<and>
   masterKey (ExplorerNetwork ''u'' None) = None"
    by (simp add: cold_tx_def cold_utxo_def ExplorerNetwork_def)
  have b: "getUTXOFullInfo 100000000 pivx_params (Inr cold_tx) cold_utxo
             (ExplorerNetwork ''u'' None) =
     (Inl TypeError, fetch (TxSpecificReq ''ab12'') (ExplorerNetwork ''u'' None))"
    by (simp add: getUTXOFullInfo_def rewrite_path_def cold_tx_def cold_utxo_def
        ExplorerNetwork_def fetch_def)
  have c: "spk_type (v_scriptPubKey (the (ts_vout dust_tx) ! c_vout (dust_utxo 0))) =
             ''pubkeyhash'' \<and>
   v_value (the (ts_vout dust_tx) ! c_vout (dust_utxo 0)) = 15 / 1000000000 \<and>
   \<lfloor>v_value (the (ts_vout dust_tx) ! c_vout (dust_utxo 0)) * 100000000 + 1 / 2\<rfloor> = 2"
    by (simp add: dust_tx_def dust_utxo_def)
  have "rewrite_path pivx_params None (fetch (TxSpecificReq ''dd01'') (ExplorerNetwork ''u'' None)) =
          Inr (None, fetch (TxSpecificReq ''dd01'') (ExplorerNetwork ''u'' None))"
    by (simp add: rewrite_path_def)
  then have "fst (getUTXOFullInfo 100000000 pivx_params (Inr dust_tx) (dust_utxo 0)
      (ExplorerNetwork ''u'' None)) =
     Inr (Some \<lparr>u_id = ''dd01'', u_path = None,
        sats = math_round (js_times (double_of (15 / 1000000000)) (number 100000000)),
        script = ''76a914aa'', u_vout = 0,
        height = cachedBlockCount (fetch (TxSpecificReq ''dd01'') (ExplorerNetwork ''u'' None)) -
                   (0 - 1),
        status = PENDING, isDelegate = False, isReward = False\<rparr>)"
    unfolding getUTXOFullInfo_def dust_utxo_def dust_tx_def
    by (simp only: Let_def explorer_utxo.simps tx_specific.simps sum.case option.case prod.case
        nth_Cons_0 tx_vout.simps scriptPubKey.simps list.size fst_conv)
       simp
  then have d: "map_option sats (projr (fst (getUTXOFullInfo 100000000 pivx_params (Inr dust_tx)
      (dust_utxo 0) (ExplorerNetwork ''u'' None)))) = Some (Num 1)"
    by (simp only: sum.sel option.map UTXO.simps sats_15e_9)
  have e: "length (the (ts_vout dust_tx)) = 2 \<and> c_vout (dust_utxo 2) = 2 \<and>
   fst (getUTXOFullInfo 100000000 pivx_params (Inr dust_tx) (dust_utxo 2)
          (ExplorerNetwork ''u'' None)) = Inl TypeError"
    by (simp add: getUTXOFullInfo_def rewrite_path_def dust_tx_def dust_utxo_def)
  from a b c d e show ?thesis
    by blast
qed

lemma isMasternodeUTXO_given:
  "isMasternodeUTXO u (Some cm) stored = (collateralTxId cm = u_id u \<and> u_vout u = outidx cm)"
  by (simp add: isMasternodeUTXO_def)

lemma refreshMasternodeData_storage:
  "ls_masternode (snd (refreshMasternodeData env cm fAlert g)) = ls_masternode g \<or>
   ls_masternode (snd (refreshMasternodeData env cm fAlert g)) = Some cm"
  by (simp add: refreshMasternodeData_def page_alert_def Let_def split: sum.splits option.splits)

lemma refreshMasternodeData_display:
  "domMnDashboard (snd (refreshMasternodeData env cm fAlert g)) = domMnDashboard g \<and>
   domControlMasternode (snd (refreshMasternodeData env cm fAlert g)) = domControlMasternode g"
  by (simp add: refreshMasternodeData_def page_alert_def Let_def split: sum.splits option.splits)

lemma add_options_frame:
  "ls_masternode (snd (add_options mk kvs g)) = ls_masternode g \<and>
   domMnDashboard (snd (add_options mk kvs g)) = domMnDashboard g \<and>
   domControlMasternode (snd (add_options mk kvs g)) = domControlMasternode g"
proof (induction kvs arbitrary: g)
  case Nil
  show ?case by simp
next
  case (Cons kv kvs)
  obtain key val where kv: "kv = (key, val)" by (cases kv)
  show ?case
  proof (cases "getAddress mk key")
    case (Inl e)
    then show ?thesis by (simp add: kv)
  next
    case (Inr a)
    then show ?thesis using Cons.IH by (simp add: kv)
  qed
qed

lemma drop_orphan_masternode_cases:
  "drop_orphan_masternode us g =
     (case ls_masternode g of
        None \<Rightarrow> g
      | Some cm \<Rightarrow>
          if \<exists>u \<in> set us. collateralTxId cm = u_id u \<and> u_vout u = outidx cm then g
          else g\<lparr>ls_masternode := None\<rparr>)"
  by (auto simp add: drop_orphan_masternode_def isMasternodeUTXO_given find_None_iff
      split: option.splits)

lemma refresh_same_storage:
  assumes "ls_masternode g = Some cm"
  shows "ls_masternode (snd (refreshMasternodeData env cm fAlert g)) = Some cm"
  using refreshMasternodeData_storage [of env cm fAlert g] assms by auto

lemma legacy_masternode_tab_frame:
  assumes "ls_masternode g = sj"
  shows "ls_masternode (snd (legacy_masternode_tab C cp env sj g)) = sj \<and>
         domControlMasternode (snd (legacy_masternode_tab C cp env sj g)) = domControlMasternode g \<and>
         (domMnDashboard (snd (legacy_masternode_tab C cp env sj g)) \<noteq> domMnDashboard g
            \<longrightarrow> sj \<noteq> None)"
proof (cases sj)
  case None
  then show ?thesis
    using assms by (simp add: legacy_masternode_tab_def Let_def)
next
  case (Some cm)
  let ?g3 = "g\<lparr>domMnAccessMasternodeText := masternodeLegacyAccessText, domMnTxId := ''none''\<rparr>"
  have l: "ls_masternode ?g3 = Some cm"
    using assms Some by simp
  obtain r g4 where r: "refreshMasternodeData env cm False ?g3 = (r, g4)"
    by (cases "refreshMasternodeData env cm False ?g3")
  have "ls_masternode g4 = Some cm"
    using refresh_same_storage [OF l, of env False] r by simp
  moreover have "domControlMasternode g4 = domControlMasternode g"
    using refreshMasternodeData_display [of env cm False ?g3] r by simp
  ultimately show ?thesis
    using assms Some r
    by (cases r) (simp_all add: legacy_masternode_tab_def Let_def)
qed

lemma hd_masternode_tab_frame:
  assumes "ls_masternode g = sj"
  shows "ls_masternode (snd (hd_masternode_tab cp env mk sj g)) = sj \<and>
         domControlMasternode (snd (hd_masternode_tab cp env mk sj g)) = domControlMasternode g \<and>
         (domMnDashboard (snd (hd_masternode_tab cp env mk sj g)) \<noteq> domMnDashboard g
            \<longrightarrow> sj \<noteq> None)"
proof (cases sj)
  case None
  let ?g3 = "g\<lparr>domMnTxId := ''none'', domMnTxId_options := [],
               domMnAccessMasternodeText := masternodeHDAccessText\<rparr>"
  let ?kvs = "collateral_addresses (collateralInSats cp) (getConfirmed env)"
  let ?g3b = "?g3\<lparr>domMnTxId := ''block'', domAccessMasternode := ''block''\<rparr>"
  obtain r g4 where r: "add_options mk ?kvs ?g3b = (r, g4)"
    by (cases "add_options mk ?kvs ?g3b")
  have "ls_masternode g4 = None \<and> domMnDashboard g4 = domMnDashboard g \<and>
        domControlMasternode g4 = domControlMasternode g"
    using add_options_frame [of mk ?kvs ?g3b] r assms None by simp
  then show ?thesis
    using assms None r
    by (cases r) (simp_all add: hd_masternode_tab_def Let_def)
next
  case (Some cm)
  let ?g3 = "g\<lparr>domMnTxId := ''none'', domMnTxId_options := [],
               domMnAccessMasternodeText := masternodeHDAccessText\<rparr>"
  let ?g5 = "?g3\<lparr>domCreateMasternode := ''block''\<rparr>"
  have l: "ls_masternode ?g3 = Some cm"
    using assms Some by simp
  have "ls_masternode (snd (refreshMasternodeData env cm False ?g3)) = Some cm"
    by (rule refresh_same_storage [OF l])
  moreover have "domControlMasternode (snd (refreshMasternodeData env cm False ?g3)) =
                 domControlMasternode g"
    using refreshMasternodeData_display [of env cm False ?g3] by simp
  ultimately show ?thesis
    using assms Some
    by (simp add: hd_masternode_tab_def Let_def)
qed

lemma drop_orphan_masternode_frame:
  "domMnDashboard (drop_orphan_masternode us g) = domMnDashboard g"
  by (simp add: drop_orphan_masternode_cases split: option.splits)

lemma drop_orphan_masternode_storage:
  "ls_masternode g' = ls_masternode g \<Longrightarrow>
   ls_masternode (drop_orphan_masternode us g') = ls_masternode (drop_orphan_masternode us g)"
  by (auto simp add: drop_orphan_masternode_cases split: option.splits)

lemma updateMasternodeTab_after_guards:
  assumes "e_masterKey env = Some mk" and "\<not> isHardwareWallet mk" and "getConfirmed env \<noteq> []"
  shows "ls_masternode (snd (updateMasternodeTab C cp env g)) =
           ls_masternode (drop_orphan_masternode (getConfirmed env) g) \<and>
         (domMnDashboard (snd (updateMasternodeTab C cp env g)) \<noteq> ''none'' \<longrightarrow>
           ls_masternode (drop_orphan_masternode (getConfirmed env) g) \<noteq> None) \<and>
         (ls_masternode (drop_orphan_masternode (getConfirmed env) g) = None \<longrightarrow>
           domControlMasternode (snd (updateMasternodeTab C cp env g)) = ''none'')"
proof -
  let ?g0 = "g\<lparr>domMnTextErrors := NoMessage, domAccessMasternode := ''none'',
                 domCreateMasternode := ''none'', domMnDashboard := ''none''\<rparr>"
  let ?g1 = "drop_orphan_masternode (getConfirmed env) ?g0"
  let ?sj = "ls_masternode ?g1"
  let ?g2 = "?g1\<lparr>domControlMasternode := (if ?sj \<noteq> None then ''block'' else ''none'')\<rparr>"
  have sj: "?sj = ls_masternode (drop_orphan_masternode (getConfirmed env) g)"
    by (rule drop_orphan_masternode_storage) simp
  have l2: "ls_masternode ?g2 = ?sj" by simp
  have d2: "domMnDashboard ?g2 = ''none''"
    by (simp add: drop_orphan_masternode_frame)
  have c2: "domControlMasternode ?g2 = (if ?sj \<noteq> None then ''block'' else ''none'')" by simp
  have u: "updateMasternodeTab C cp env g =
             (if \<not> isHD mk then legacy_masternode_tab C cp env ?sj ?g2
              else hd_masternode_tab cp env mk ?sj ?g2)"
    using assms by (simp add: updateMasternodeTab_def Let_def)
  show ?thesis
  proof (cases "isHD mk")
    case True
    then show ?thesis
      using u hd_masternode_tab_frame [OF l2, of cp env mk] d2 c2 sj
      by auto
  next
    case False
    then show ?thesis
      using u legacy_masternode_tab_frame [OF l2, of C cp env] d2 c2 sj
      by auto
  qed
qed

lemma updateMasternodeTab_guards:
  assumes "e_masterKey env = None \<or> (\<exists>mk. e_masterKey env = Some mk \<and> isHardwareWallet mk) \<or>
           getConfirmed env = []"
  shows "fst (updateMasternodeTab C cp env g) = Inr () \<and>
         ls_masternode (snd (updateMasternodeTab C cp env g)) = ls_masternode g \<and>
         domMnDashboard (snd (updateMasternodeTab C cp env g)) = ''none''"
  using assms
  by (auto simp add: updateMasternodeTab_def Let_def split: option.splits)

text \<open>
  C7. With a masternode given, \<^verbatim>\<open>isMasternodeUTXO\<close> is true exactly when the collateral
  transaction id is the id of the UTXO and the output indices agree, whatever local
  storage holds; with none given and none stored it is false; with none given it
  decides by the stored one.
\<close>

theorem isMasternodeUTXO_matches_collateral:
  "isMasternodeUTXO cUTXO (Some mn) stored =
     (collateralTxId mn = u_id cUTXO \<and> u_vout cUTXO = outidx mn) \<and>
   isMasternodeUTXO cUTXO None None = False \<and>
   isMasternodeUTXO cUTXO None (Some mn) =
     (collateralTxId mn = u_id cUTXO \<and> u_vout cUTXO = outidx mn)"
  by (simp add: isMasternodeUTXO_def)

text \<open>
  C6, as the code has it. When a master key is loaded, the wallet is no hardware wallet
  and the mempool has a confirmed UTXO, \<^verbatim>\<open>updateMasternodeTab\<close> removes a stored
  masternode that no confirmed UTXO matches, and then leaves the dashboard and the
  control panel hidden; a masternode that is still stored afterwards is the one stored
  before and has its collateral among the confirmed UTXOs; and the dashboard is shown
  only with a stored masternode. When one of the three guards returns first, local
  storage is left as it is and the dashboard stays hidden.
\<close>

theorem updateMasternodeTab_removes_orphan:
  "(\<forall>mk. e_masterKey env = Some mk \<and> \<not> isHardwareWallet mk \<and> getConfirmed env \<noteq> [] \<longrightarrow>
      (\<forall>cm. ls_masternode g = Some cm \<and>
            \<not> (\<exists>u \<in> set (getConfirmed env). isMasternodeUTXO u (Some cm) (ls_masternode g)) \<longrightarrow>
            ls_masternode (snd (updateMasternodeTab C cp env g)) = None \<and>
            domMnDashboard (snd (updateMasternodeTab C cp env g)) = ''none'' \<and>
            domControlMasternode (snd (updateMasternodeTab C cp env g)) = ''none'') \<and>
      (\<forall>cm. ls_masternode (snd (updateMasternodeTab C cp env g)) = Some cm \<longrightarrow>
            ls_masternode g = Some cm \<and>
            (\<exists>u \<in> set (getConfirmed env). isMasternodeUTXO u (Some cm) (ls_masternode g))) \<and>
      (domMnDashboard (snd (updateMasternodeTab C cp env g)) \<noteq> ''none'' \<longrightarrow>
         ls_masternode (snd (updateMasternodeTab C cp env g)) \<noteq> None)) \<and>
   (e_masterKey env = None \<or> (\<exists>mk. e_masterKey env = Some mk \<and> isHardwareWallet mk) \<or>
    getConfirmed env = [] \<longrightarrow>
      ls_masternode (snd (updateMasternodeTab C cp env g)) = ls_masternode g \<and>
      domMnDashboard (snd (updateMasternodeTab C cp env g)) = ''none'')"
proof (intro conjI allI impI)
  fix mk cm
  assume a: "e_masterKey env = Some mk \<and> \<not> isHardwareWallet mk \<and> getConfirmed env \<noteq> []"
    and b: "ls_masternode g = Some cm \<and>
            \<not> (\<exists>u \<in> set (getConfirmed env). isMasternodeUTXO u (Some cm) (ls_masternode g))"
  from a have ag: "ls_masternode (snd (updateMasternodeTab C cp env g)) =
           ls_masternode (drop_orphan_masternode (getConfirmed env) g) \<and>
         (domMnDashboard (snd (updateMasternodeTab C cp env g)) \<noteq> ''none'' \<longrightarrow>
           ls_masternode (drop_orphan_masternode (getConfirmed env) g) \<noteq> None) \<and>
         (ls_masternode (drop_orphan_masternode (getConfirmed env) g) = None \<longrightarrow>
           domControlMasternode (snd (updateMasternodeTab C cp env g)) = ''none'')"
    using updateMasternodeTab_after_guards [of env mk C cp g] by blast
  from b have d: "ls_masternode (drop_orphan_masternode (getConfirmed env) g) = None"
    by (simp add: drop_orphan_masternode_cases isMasternodeUTXO_given)
  show "ls_masternode (snd (updateMasternodeTab C cp env g)) = None"
    using ag d by simp
  show "domMnDashboard (snd (updateMasternodeTab C cp env g)) = ''none''"
    using ag d by auto
  show "domControlMasternode (snd (updateMasternodeTab C cp env g)) = ''none''"
    using ag d by simp
next
  fix mk cm
  assume a: "e_masterKey env = Some mk \<and> \<not> isHardwareWallet mk \<and> getConfirmed env \<noteq> []"
    and b: "ls_masternode (snd (updateMasternodeTab C cp env g)) = Some cm"
  from a have "ls_masternode (snd (updateMasternodeTab C cp env g)) =
           ls_masternode (drop_orphan_masternode (getConfirmed env) g)"
    using updateMasternodeTab_after_guards [of env mk C cp g] by blast
  with b have d: "ls_masternode (drop_orphan_masternode (getConfirmed env) g) = Some cm"
    by simp
  then show "ls_masternode g = Some cm"
    by (auto simp add: drop_orphan_masternode_cases split: option.splits if_splits)
  from d show "\<exists>u \<in> set (getConfirmed env). isMasternodeUTXO u (Some cm) (ls_masternode g)"
    by (auto simp add: drop_orphan_masternode_cases isMasternodeUTXO_given
        split: option.splits if_splits)
next
  fix mk
  assume a: "e_masterKey env = Some mk \<and> \<not> isHardwareWallet mk \<and> getConfirmed env \<noteq> []"
    and b: "domMnDashboard (snd (updateMasternodeTab C cp env g)) \<noteq> ''none''"
  show "ls_masternode (snd (updateMasternodeTab C cp env g)) \<noteq> None"
    using a b updateMasternodeTab_after_guards [of env mk C cp g] by auto
next
  assume "e_masterKey env = None \<or> (\<exists>mk. e_masterKey env = Some mk \<and> isHardwareWallet mk) \<or>
    getConfirmed env = []"
  then show "ls_masternode (snd (updateMasternodeTab C cp env g)) = ls_masternode g"
    using updateMasternodeTab_guards [of env C cp g] by blast
next
  assume "e_masterKey env = None \<or> (\<exists>mk. e_masterKey env = Some mk \<and> isHardwareWallet mk) \<or>
    getConfirmed env = []"
  then show "domMnDashboard (snd (updateMasternodeTab C cp env g)) = ''none''"
    using updateMasternodeTab_guards [of env C cp g] by blast
qed

lemmas eval_tab =
  updateMasternodeTab_def legacy_masternode_tab_def hd_masternode_tab_def
  drop_orphan_masternode_def isMasternodeUTXO_def refreshMasternodeData_def page_alert_def
  sample_page_def sample_mn_def loading_env_def collateral_env_def spent_env_def
  collateral_utxo_def other_utxo_def pivx_params_def wallet_key_def

theorem updateMasternodeTab_removes_orphan_witness:
  "e_masterKey spent_env = Some wallet_key \<and> \<not> isHardwareWallet wallet_key \<and>
   getConfirmed spent_env \<noteq> [] \<and> ls_masternode sample_page = Some sample_mn \<and>
   \<not> (\<exists>u \<in> set (getConfirmed spent_env).
         isMasternodeUTXO u (Some sample_mn) (ls_masternode sample_page)) \<and>
   ls_masternode (snd (updateMasternodeTab 100000000 pivx_params spent_env sample_page)) = None \<and>
   domMnDashboard (snd (updateMasternodeTab 100000000 pivx_params spent_env sample_page)) =
     ''none'' \<and>
   ls_masternode (snd (updateMasternodeTab 100000000 pivx_params collateral_env sample_page)) =
     Some sample_mn \<and>
   domMnDashboard (snd (updateMasternodeTab 100000000 pivx_params collateral_env sample_page)) =
     ''''"
proof -
  have a: "e_masterKey spent_env = Some wallet_key \<and> \<not> isHardwareWallet wallet_key \<and>
           getConfirmed spent_env \<noteq> []"
    by (simp add: spent_env_def loading_env_def wallet_key_def)
  have b: "ls_masternode sample_page = Some sample_mn \<and>
           \<not> (\<exists>u \<in> set (getConfirmed spent_env).
                 isMasternodeUTXO u (Some sample_mn) (ls_masternode sample_page))"
    by (simp add: sample_page_def spent_env_def loading_env_def other_utxo_def sample_mn_def
        isMasternodeUTXO_def)
  have c: "ls_masternode (snd (updateMasternodeTab 100000000 pivx_params collateral_env
             sample_page)) = Some sample_mn \<and>
           domMnDashboard (snd (updateMasternodeTab 100000000 pivx_params collateral_env
             sample_page)) = ''''"
    by (simp add: eval_tab)
  show ?thesis
    using a b c
      updateMasternodeTab_removes_orphan [of spent_env sample_page 100000000 pivx_params]
    by blast
qed

text \<open>
  The claim as it is written fails while the mempool has no confirmed UTXO (an empty or
  still loading wallet): no UTXO matches the stored masternode, and the entry stays in
  local storage.
\<close>

theorem updateMasternodeTab_loading_counterexample:
  "ls_masternode sample_page = Some sample_mn \<and> getConfirmed loading_env = [] \<and>
   updateMasternodeTab 100000000 pivx_params loading_env sample_page =
     (Inr (), sample_page\<lparr>domMnDashboard := ''none'', domMnTextErrors := WalletEmpty\<rparr>) \<and>
   ls_masternode (snd (updateMasternodeTab 100000000 pivx_params loading_env sample_page)) =
     Some sample_mn"
  by (simp add: updateMasternodeTab_def sample_page_def loading_env_def wallet_key_def)

lemma createMasternode_mempool:
  "snd (snd (createMasternode ops COIN cp key env g mp)) =
     (if reaches_broadcast cp key env
      then after_broadcast ops env (submitted_tx key env) (snd (chooseUTXOs env))
             (newChangeAddress env) (change_of cp env) (newAddress env) (collateralInSats cp)
             COIN mp
      else mp)"
  by (simp add: createMasternode_def reaches_broadcast_def submitted_tx_def change_of_def
      Let_def split: option.splits)

lemma foldl_autoRemoveUTXO_view:
  assumes "\<And>r m. view (autoRemoveUTXO ops r m) = view m - {(ref_id r, ref_vout r)}"
  shows "view (foldl (\<lambda>m tx. autoRemoveUTXO ops
                     \<lparr>ref_id = outpoint_hash tx, ref_path = in_path tx,
                      ref_vout = outpoint_index tx\<rparr> m) mp inputs) =
         view mp - set (map (\<lambda>tx. (outpoint_hash tx, outpoint_index tx)) inputs)"
proof (induction inputs arbitrary: mp)
  case Nil
  show ?case by simp
next
  case (Cons tx inputs)
  show ?case
    by (simp add: Cons.IH assms) blast
qed

lemma list_mempool_contract:
  "outpoints (autoRemoveUTXO list_mempool r m) = outpoints m - {(ref_id r, ref_vout r)}"
  "outpoints (addUTXO list_mempool n m) = insert (n_id n, n_vout n) (outpoints m)"
  by (auto simp add: list_mempool_def outpoints_def)

text \<open>
  C5. The mempool after \<^verbatim>\<open>createMasternode\<close>: when the call reaches the broadcast
  and \<^verbatim>\<open>sendTransaction\<close> reports success, every input of the transaction has been
  passed to \<^verbatim>\<open>autoRemoveUTXO\<close> and then two pending UTXOs have been passed to
  \<^verbatim>\<open>addUTXO\<close> under the future transaction id, the change at index 0 and the
  collateral at index 1; in every other case, a failed broadcast among them, the
  mempool is the one before the call. For a mempool whose \<^verbatim>\<open>autoRemoveUTXO\<close> deletes
  the outpoint it is given and whose \<^verbatim>\<open>addUTXO\<close> inserts one, the outpoints after a
  successful broadcast are those before, without the inputs, with the two new ones.
\<close>

theorem createMasternode_optimistic_update:
  "snd (snd (createMasternode ops COIN cp key env g mp)) =
     (if reaches_broadcast cp key env \<and> sendTransaction_ok env (submitted_tx key env)
      then addUTXO ops
             \<lparr>n_id = futureTxid_of env (submitted_tx key env), n_path = snd (newAddress env),
              n_sats = collateralInSats cp, n_vout = 1,
              n_script = output_script env (fst (newAddress env))
                           (js_div (Some (collateralInSats cp)) COIN),
              n_status = PENDING\<rparr>
             (addUTXO ops
                \<lparr>n_id = futureTxid_of env (submitted_tx key env),
                 n_path = snd (newChangeAddress env),
                 n_sats = change_of cp env, n_vout = 0,
                 n_script = output_script env (fst (newChangeAddress env))
                              (js_div (Some (change_of cp env)) COIN),
                 n_status = PENDING\<rparr>
                (foldl (\<lambda>m tx. autoRemoveUTXO ops
                          \<lparr>ref_id = outpoint_hash tx, ref_path = in_path tx,
                           ref_vout = outpoint_index tx\<rparr> m)
                   mp (snd (chooseUTXOs env))))
      else mp) \<and>
   (\<forall>view :: 'm \<Rightarrow> (string \<times> int) set.
      (\<forall>r m. view (autoRemoveUTXO ops r m) = view m - {(ref_id r, ref_vout r)}) \<and>
      (\<forall>n m. view (addUTXO ops n m) = insert (n_id n, n_vout n) (view m)) \<and>
      reaches_broadcast cp key env \<and> sendTransaction_ok env (submitted_tx key env) \<longrightarrow>
      view (snd (snd (createMasternode ops COIN cp key env g mp))) =
        insert (futureTxid_of env (submitted_tx key env), 1)
          (insert (futureTxid_of env (submitted_tx key env), 0)
             (view mp - set (map (\<lambda>tx. (outpoint_hash tx, outpoint_index tx))
                               (snd (chooseUTXOs env))))))"
proof (intro conjI allI impI)
  show "snd (snd (createMasternode ops COIN cp key env g mp)) =
     (if reaches_broadcast cp key env \<and> sendTransaction_ok env (submitted_tx key env)
      then addUTXO ops
             \<lparr>n_id = futureTxid_of env (submitted_tx key env), n_path = snd (newAddress env),
              n_sats = collateralInSats cp, n_vout = 1,
              n_script = output_script env (fst (newAddress env))
                           (js_div (Some (collateralInSats cp)) COIN),
              n_status = PENDING\<rparr>
             (addUTXO ops
                \<lparr>n_id = futureTxid_of env (submitted_tx key env),
                 n_path = snd (newChangeAddress env),
                 n_sats = change_of cp env, n_vout = 0,
                 n_script = output_script env (fst (newChangeAddress env))
                              (js_div (Some (change_of cp env)) COIN),
                 n_status = PENDING\<rparr>
                (foldl (\<lambda>m tx. autoRemoveUTXO ops
                          \<lparr>ref_id = outpoint_hash tx, ref_path = in_path tx,
                           ref_vout = outpoint_index tx\<rparr> m)
                   mp (snd (chooseUTXOs env))))
      else mp)"
    by (simp add: createMasternode_mempool after_broadcast_def Let_def)
next
  fix view :: "'m \<Rightarrow> (string \<times> int) set"
  assume a: "(\<forall>r m. view (autoRemoveUTXO ops r m) = view m - {(ref_id r, ref_vout r)}) \<and>
      (\<forall>n m. view (addUTXO ops n m) = insert (n_id n, n_vout n) (view m)) \<and>
      reaches_broadcast cp key env \<and> sendTransaction_ok env (submitted_tx key env)"
  then have r: "\<And>r m. view (autoRemoveUTXO ops r m) = view m - {(ref_id r, ref_vout r)}"
    by simp
  show "view (snd (snd (createMasternode ops COIN cp key env g mp))) =
        insert (futureTxid_of env (submitted_tx key env), 1)
          (insert (futureTxid_of env (submitted_tx key env), 0)
             (view mp - set (map (\<lambda>tx. (outpoint_hash tx, outpoint_index tx))
                               (snd (chooseUTXOs env)))))"
    using a
    by (simp add: createMasternode_mempool after_broadcast_def Let_def
        foldl_autoRemoveUTXO_view [of view ops, OF r])
qed

theorem createMasternode_optimistic_update_witness:
  "reaches_broadcast pivx_params (Some wallet_key) sample_creation \<and>
   sendTransaction_ok sample_creation (submitted_tx (Some wallet_key) sample_creation) \<and>
   snd (snd (createMasternode list_mempool 100000000 pivx_params (Some wallet_key)
      sample_creation sample_page [(''cd34'', 0, CONFIRMED), (''ab12'', 1, CONFIRMED)])) =
     [(''ab12'', 1, CONFIRMED), (''f00d'', 0, PENDING), (''f00d'', 1, PENDING)] \<and>
   outpoints (snd (snd (createMasternode list_mempool 100000000 pivx_params (Some wallet_key)
      sample_creation sample_page [(''cd34'', 0, CONFIRMED), (''ab12'', 1, CONFIRMED)]))) =
     {(''f00d'', 1), (''f00d'', 0), (''ab12'', 1)} \<and>
   \<not> sendTransaction_ok failed_creation (submitted_tx (Some wallet_key) failed_creation) \<and>
   snd (snd (createMasternode list_mempool 100000000 pivx_params (Some wallet_key)
      failed_creation sample_page [(''cd34'', 0, CONFIRMED), (''ab12'', 1, CONFIRMED)])) =
     [(''cd34'', 0, CONFIRMED), (''ab12'', 1, CONFIRMED)]"
proof -
  have a: "reaches_broadcast pivx_params (Some wallet_key) sample_creation"
    "reaches_broadcast pivx_params (Some wallet_key) failed_creation"
    by (simp_all add: reaches_broadcast_def wallet_key_def sample_creation_def
        failed_creation_def pivx_params_def getFee_def)
  have b: "sendTransaction_ok sample_creation (submitted_tx (Some wallet_key) sample_creation)"
    "\<not> sendTransaction_ok failed_creation (submitted_tx (Some wallet_key) failed_creation)"
    by (simp_all add: sample_creation_def failed_creation_def)
  have c: "\<forall>r m. outpoints (autoRemoveUTXO list_mempool r m) =
             outpoints m - {(ref_id r, ref_vout r)}"
    "\<forall>n m. outpoints (addUTXO list_mempool n m) = insert (n_id n, n_vout n) (outpoints m)"
    by (simp_all add: list_mempool_contract)
  have d: "outpoints [(''cd34'', 0, CONFIRMED), (''ab12'', 1, CONFIRMED)] =
             {(''cd34'', 0), (''ab12'', 1)}"
    "snd (chooseUTXOs sample_creation) =
       [\<lparr>outpoint_hash = ''cd34'', outpoint_index = 0, in_path = None\<rparr>]"
    "futureTxid_of sample_creation (submitted_tx (Some wallet_key) sample_creation) = ''f00d''"
    by (simp_all add: outpoints_def sample_creation_def)
  have e: "{(''cd34'', 0::int), (''ab12'', 1)} - {(''cd34'', 0)} = {(''ab12'', 1)}"
    by auto
  have s: "snd (snd (createMasternode list_mempool 100000000 pivx_params (Some wallet_key)
      sample_creation sample_page [(''cd34'', 0, CONFIRMED), (''ab12'', 1, CONFIRMED)])) =
     [(''ab12'', 1, CONFIRMED), (''f00d'', 0, PENDING), (''f00d'', 1, PENDING)]"
    using a(1) b(1)
      createMasternode_optimistic_update [of list_mempool 100000000 pivx_params
        "Some wallet_key" sample_creation sample_page
        "[(''cd34'', 0, CONFIRMED), (''ab12'', 1, CONFIRMED)]"]
    by (simp add: list_mempool_def sample_creation_def)
  have f: "snd (snd (createMasternode list_mempool 100000000 pivx_params (Some wallet_key)
      failed_creation sample_page [(''cd34'', 0, CONFIRMED), (''ab12'', 1, CONFIRMED)])) =
     [(''cd34'', 0, CONFIRMED), (''ab12'', 1, CONFIRMED)]"
    using b(2)
      createMasternode_optimistic_update [of list_mempool 100000000 pivx_params
        "Some wallet_key" failed_creation sample_page
        "[(''cd34'', 0, CONFIRMED), (''ab12'', 1, CONFIRMED)]"]
    by simp
  have o: "outpoints (snd (snd (createMasternode list_mempool 100000000 pivx_params
      (Some wallet_key) sample_creation sample_page
      [(''cd34'', 0, CONFIRMED), (''ab12'', 1, CONFIRMED)]))) =
     {(''f00d'', 1), (''f00d'', 0), (''ab12'', 1)}"
    using a(1) b(1) c d e
      createMasternode_optimistic_update [of list_mempool 100000000 pivx_params
        "Some wallet_key" sample_creation sample_page
        "[(''cd34'', 0, CONFIRMED), (''ab12'', 1, CONFIRMED)]"]
    by simp
  show ?thesis
    using a(1) b s f o by simp
qed

end
